theory Spec2Isabelle
  imports Complex_Main
begin

section \<open>Waste management TUI: the two variants of wmtui.go\<close>

text \<open>
  The source file holds two variants of the same program. Both are Bubble Tea models whose
  \<open>Update\<close> method consumes one message at a time.

  \<^item> The \<^emph>\<open>textinput variant\<close> (first part of the file) keeps five \<open>textinput.Model\<close>
    widgets and a \<open>focusIndex\<close>; its definitions carry the suffix \<open>_ti\<close> where the name is
    shared with the other variant.
  \<^item> The \<^emph>\<open>single-buffer variant\<close> (second part of the file) keeps one \<open>input\<close> string and
    encodes the focused field in \<open>inputmode\<close>; its shared names carry the suffix \<open>_sb\<close>.

  Key messages are modelled by the string \<open>msg.String()\<close> that both variants switch on.
  The database handle is an explicit store state of type \<open>'s\<close>; what the SQL driver and
  \<open>strconv.ParseFloat\<close> answer is supplied by an environment record, so every theorem
  holds for every store and every parser. A \<open>float64\<close> is a value of an abstract type
  \<open>'q\<close> with a zero: the program never computes with a quantity, it only stores what the
  parser returned.
\<close>

subsection \<open>Shared data\<close>

record 'q wasteItem =
  id_w :: int
  name :: string
  quantity :: 'q
  wasteType :: string
  location :: string
  method_w :: string

datatype inputmode =
  normal | addingName | addingQuantity | addingWasteType | addingLocation | addingMethod

text \<open>The command returned next to the model: nothing, \<open>tea.Quit\<close>, or a command of the
  text-input widgets (cursor blinking, a batch of those).\<close>

datatype cmd = NoCmd | Quit | InputCmd

text \<open>A message is a key press or anything else the runtime delivers.\<close>

datatype 'o msg = KeyMsg string | OtherMsg 'o

text \<open>A Go runtime panic (here always an index out of range) ends the program.\<close>

datatype 'a outcome = Panic | Done 'a

text \<open>
  The environment: \<open>parseFloat s\<close> is \<open>strconv.ParseFloat(s, 64)\<close> with \<open>Inl\<close> the text of
  the error; \<open>execInsert\<close> is the INSERT statement followed by \<open>LastInsertId\<close> (\<open>Inl\<close> the
  text of the error of either call); \<open>execDelete\<close> is the DELETE statement; \<open>queryAll\<close> is
  the SELECT of \<open>loadWasteItems\<close>. Each store call returns the store state it leaves.
\<close>

record ('q, 's) env =
  parseFloat :: "string \<Rightarrow> string + 'q"
  execInsert :: "'s \<Rightarrow> string \<Rightarrow> 'q \<Rightarrow> string \<Rightarrow> string \<Rightarrow> string \<Rightarrow> (string + int) \<times> 's"
  execDelete :: "'s \<Rightarrow> int \<Rightarrow> string option \<times> 's"
  queryAll :: "'s \<Rightarrow> string + 'q wasteItem list"

text \<open>\<open>wasteItem{name: s}\<close>: every other field has Go's zero value.\<close>

definition newItem :: "string \<Rightarrow> ('q::zero) wasteItem" where
  "newItem s = \<lparr>id_w = 0, name = s, quantity = 0, wasteType = [], location = [], method_w = []\<rparr>"

text \<open>\<open>xs[len(xs)-1] = f(xs[len(xs)-1])\<close>: panics on an empty slice.\<close>

definition setLast :: "('a \<Rightarrow> 'a) \<Rightarrow> 'a list \<Rightarrow> 'a list outcome" where
  "setLast f xs =
     (if xs = [] then Panic
      else Done (xs[length xs - 1 := f (xs ! (length xs - 1))]))"

text \<open>\<open>append(xs[:c], xs[c+1:]...)\<close> for an index already known to be in range.\<close>

definition removeAt :: "nat \<Rightarrow> 'a list \<Rightarrow> 'a list" where
  "removeAt c xs = take c xs @ drop (c + 1) xs"

subsection \<open>The single-buffer variant\<close>

record ('q, 's) model_sb =
  db_sb :: 's
  waste_sb :: "'q wasteItem list"
  cursor_sb :: int
  input :: string
  inputmode_sb :: inputmode
  err_sb :: "string option"

definition loadWasteItems :: "('q, 's) env \<Rightarrow> 's \<Rightarrow> string + 'q wasteItem list" where
  "loadWasteItems e d = queryAll e d"

text \<open>\<open>initialModel\<close>: a load error is fatal (\<open>log.Fatalf\<close>), modelled as \<open>Inl\<close>.\<close>

definition initialModel_sb :: "('q, 's) env \<Rightarrow> 's \<Rightarrow> string + ('q, 's) model_sb" where
  "initialModel_sb e d =
     (case loadWasteItems e d of
        Inl x \<Rightarrow> Inl (''Error loading waste items: '' @ x)
      | Inr ws \<Rightarrow> Inr \<lparr>db_sb = d, waste_sb = ws, cursor_sb = 0, input = [],
                       inputmode_sb = normal, err_sb = None\<rparr>)"

definition deleteWasteItem_sb ::
  "('q, 's) env \<Rightarrow> ('q, 's) model_sb \<Rightarrow> int \<Rightarrow> string option \<times> 's" where
  "deleteWasteItem_sb e m i = execDelete e (db_sb m) i"

text \<open>
  \<open>addWasteItem\<close> has a value receiver, but the copied slice header shares its backing
  array with the caller's, and the database handle is a pointer: the element write and
  the store effect are both visible to the caller, so the model returns them.
\<close>

definition addWasteItem_sb ::
  "('q, 's) env \<Rightarrow> ('q, 's) model_sb \<Rightarrow> 'q wasteItem
     \<Rightarrow> (string option \<times> ('q, 's) model_sb) outcome" where
  "addWasteItem_sb e m item =
     (case execInsert e (db_sb m) (name item) (quantity item) (wasteType item)
             (location item) (method_w item) of
        (Inl x, d) \<Rightarrow> Done (Some x, m\<lparr>db_sb := d\<rparr>)
      | (Inr i, d) \<Rightarrow>
          (case setLast (\<lambda>_. item\<lparr>id_w := i\<rparr>) (waste_sb m) of
             Panic \<Rightarrow> Panic
           | Done ws \<Rightarrow> Done (None, m\<lparr>db_sb := d, waste_sb := ws\<rparr>)))"

definition updateNormal_sb ::
  "('q, 's) env \<Rightarrow> ('q, 's) model_sb \<Rightarrow> string \<Rightarrow> (('q, 's) model_sb \<times> cmd) outcome" where
  "updateNormal_sb e m k =
     (if k = ''ctrl+c'' \<or> k = ''q'' then Done (m, Quit)
      else if k = ''up'' \<or> k = ''k'' then
        Done (if cursor_sb m > 0 then m\<lparr>cursor_sb := cursor_sb m - 1\<rparr> else m, NoCmd)
      else if k = ''down'' \<or> k = ''j'' then
        Done (if cursor_sb m < int (length (waste_sb m)) - 1
              then m\<lparr>cursor_sb := cursor_sb m + 1\<rparr> else m, NoCmd)
      else if k = ''a'' then Done (m\<lparr>inputmode_sb := addingName, input := []\<rparr>, NoCmd)
      else if k = ''d'' then
        (if length (waste_sb m) > 0 then
           (if 0 \<le> cursor_sb m \<and> cursor_sb m < int (length (waste_sb m)) then
              (case deleteWasteItem_sb e m (id_w (waste_sb m ! nat (cursor_sb m))) of
                 (Some x, d) \<Rightarrow>
                   Done (m\<lparr>db_sb := d, err_sb := Some (''failed to delete item: '' @ x)\<rparr>, NoCmd)
               | (None, d) \<Rightarrow>
                   (let ws = removeAt (nat (cursor_sb m)) (waste_sb m);
                        c = (if cursor_sb m \<ge> int (length ws) then int (length ws) - 1
                             else cursor_sb m)
                    in Done (m\<lparr>db_sb := d, waste_sb := ws, cursor_sb := c\<rparr>, NoCmd)))
            else Panic)
         else Done (m, NoCmd))
      else Done (m, NoCmd))"

definition updateAddingText ::
  "('q::zero, 's) env \<Rightarrow> ('q, 's) model_sb \<Rightarrow> string \<Rightarrow> (('q, 's) model_sb \<times> cmd) outcome" where
  "updateAddingText e m k =
     (if k = ''enter'' then
        (case inputmode_sb m of
           addingName \<Rightarrow>
             Done (m\<lparr>waste_sb := waste_sb m @ [newItem (input m)],
                     inputmode_sb := addingQuantity, input := []\<rparr>, NoCmd)
         | addingWasteType \<Rightarrow>
             (case setLast (\<lambda>w. w\<lparr>wasteType := input m\<rparr>) (waste_sb m) of
                Panic \<Rightarrow> Panic
              | Done ws \<Rightarrow>
                  Done (m\<lparr>waste_sb := ws, inputmode_sb := addingLocation, input := []\<rparr>, NoCmd))
         | addingLocation \<Rightarrow>
             (case setLast (\<lambda>w. w\<lparr>location := input m\<rparr>) (waste_sb m) of
                Panic \<Rightarrow> Panic
              | Done ws \<Rightarrow>
                  Done (m\<lparr>waste_sb := ws, inputmode_sb := addingMethod, input := []\<rparr>, NoCmd))
         | addingMethod \<Rightarrow>
             (case setLast (\<lambda>w. w\<lparr>method_w := input m\<rparr>) (waste_sb m) of
                Panic \<Rightarrow> Panic
              | Done ws \<Rightarrow>
                  (case addWasteItem_sb e (m\<lparr>waste_sb := ws\<rparr>) (ws ! (length ws - 1)) of
                     Panic \<Rightarrow> Panic
                   | Done (Some x, m') \<Rightarrow>
                       Done (m'\<lparr>err_sb := Some (''failed to add item: '' @ x),
                                inputmode_sb := normal, input := []\<rparr>, NoCmd)
                   | Done (None, m') \<Rightarrow>
                       Done (m'\<lparr>inputmode_sb := normal, input := []\<rparr>, NoCmd)))
         | _ \<Rightarrow> Done (m\<lparr>input := []\<rparr>, NoCmd))
      else if k = ''esc'' then Done (m\<lparr>inputmode_sb := normal, input := []\<rparr>, NoCmd)
      else Done (m\<lparr>input := input m @ k\<rparr>, NoCmd))"

definition updateAddingQuantity ::
  "('q, 's) env \<Rightarrow> ('q, 's) model_sb \<Rightarrow> string \<Rightarrow> (('q, 's) model_sb \<times> cmd) outcome" where
  "updateAddingQuantity e m k =
     (if k = ''enter'' then
        (case parseFloat e (input m) of
           Inl x \<Rightarrow>
             Done (m\<lparr>err_sb := Some (''invalid quantity entered: '' @ x), input := []\<rparr>, NoCmd)
         | Inr q \<Rightarrow>
             (case setLast (\<lambda>w. w\<lparr>quantity := q\<rparr>) (waste_sb m) of
                Panic \<Rightarrow> Panic
              | Done ws \<Rightarrow>
                  Done (m\<lparr>waste_sb := ws, inputmode_sb := addingWasteType,
                          err_sb := None, input := []\<rparr>, NoCmd)))
      else if k = ''esc'' then Done (m\<lparr>inputmode_sb := normal, input := []\<rparr>, NoCmd)
      else Done (m\<lparr>input := input m @ k\<rparr>, NoCmd))"

definition Update_sb ::
  "('q::zero, 's) env \<Rightarrow> ('q, 's) model_sb \<Rightarrow> 'o msg \<Rightarrow> (('q, 's) model_sb \<times> cmd) outcome" where
  "Update_sb e m x =
     (case x of
        KeyMsg k \<Rightarrow>
          (case inputmode_sb m of
             normal \<Rightarrow> updateNormal_sb e m k
           | addingQuantity \<Rightarrow> updateAddingQuantity e m k
           | _ \<Rightarrow> updateAddingText e m k)
      | OtherMsg _ \<Rightarrow> Done (m, NoCmd))"

text \<open>The event loop: messages are processed one at a time; \<open>tea.Quit\<close> and a panic end it.\<close>

fun run_sb ::
  "('q::zero, 's) env \<Rightarrow> ('q, 's) model_sb \<Rightarrow> 'o msg list \<Rightarrow> ('q, 's) model_sb outcome" where
  "run_sb e m [] = Done m"
| "run_sb e m (x # xs) =
     (case Update_sb e m x of
        Panic \<Rightarrow> Panic
      | Done (m', c) \<Rightarrow> (if c = Quit then Done m' else run_sb e m' xs))"

subsection \<open>The textinput variant\<close>

text \<open>
  Of a \<open>textinput.Model\<close> the program reads and writes the text value and the focus flag;
  prompt and text styles and the cursor widget only affect rendering and are left out.
  \<open>Focus\<close>, \<open>Blur\<close>, \<open>SetValue\<close> and \<open>Value\<close> stand for the widget's methods of the
  same names. What the widget does with a message that is not handled by the program
  itself is a parameter \<open>tiUpdate\<close> of \<open>Update_ti\<close>.
\<close>

record textinput =
  tvalue :: string
  focus :: bool

definition Focus :: "textinput \<Rightarrow> textinput" where
  "Focus t = t\<lparr>focus := True\<rparr>"

definition Blur :: "textinput \<Rightarrow> textinput" where
  "Blur t = t\<lparr>focus := False\<rparr>"

definition SetValue :: "string \<Rightarrow> textinput \<Rightarrow> textinput" where
  "SetValue s t = t\<lparr>tvalue := s\<rparr>"

definition Value :: "textinput \<Rightarrow> string" where
  "Value t = tvalue t"

record ('q, 's) model_ti =
  db_ti :: 's
  waste_ti :: "'q wasteItem list"
  cursor_ti :: int
  inputs :: "textinput list"
  inputmode_ti :: inputmode
  err_ti :: "string option"
  cursorMode :: int
  focusIndex :: int

text \<open>\<open>cursor.CursorBlink\<close> and \<open>cursor.CursorHide\<close>, the first and the last cursor mode.\<close>

definition CursorBlink :: int where
  "CursorBlink = 0"

definition CursorHide :: int where
  "CursorHide = 2"

definition initialModel_ti :: "('q, 's) env \<Rightarrow> 's \<Rightarrow> string + ('q, 's) model_ti" where
  "initialModel_ti e d =
     (case loadWasteItems e d of
        Inl x \<Rightarrow> Inl (''Error loading waste items: '' @ x)
      | Inr ws \<Rightarrow>
          Inr \<lparr>db_ti = d, waste_ti = ws, cursor_ti = 0,
               inputs = \<lparr>tvalue = [], focus = True\<rparr> # replicate 4 \<lparr>tvalue = [], focus = False\<rparr>,
               inputmode_ti = normal, err_ti = None, cursorMode = 0, focusIndex = 0\<rparr>)"

text \<open>\<open>m.inputs[i].Focus()\<close> for an index computed at run time.\<close>

definition focusAt :: "int \<Rightarrow> textinput list \<Rightarrow> textinput list outcome" where
  "focusAt i ts =
     (if 0 \<le> i \<and> i < int (length ts) then Done (ts[nat i := Focus (ts ! nat i)]) else Panic)"

text \<open>The loop of the focus branch: the input at \<open>focusIndex\<close> is focused, every other
  one is blurred.\<close>

definition refocus :: "int \<Rightarrow> textinput list \<Rightarrow> textinput list" where
  "refocus fi ts =
     map (\<lambda>(i, t). if int i = fi then Focus t else Blur t) (enumerate 0 ts)"

definition updateInputs ::
  "('o \<Rightarrow> textinput \<Rightarrow> textinput) \<Rightarrow> ('q, 's) model_ti \<Rightarrow> 'o \<Rightarrow> ('q, 's) model_ti \<times> cmd" where
  "updateInputs tiUpdate m x = (m\<lparr>inputs := map (tiUpdate x) (inputs m)\<rparr>, InputCmd)"

definition deleteWasteItem_ti ::
  "('q, 's) env \<Rightarrow> ('q, 's) model_ti \<Rightarrow> int \<Rightarrow> string option \<times> 's" where
  "deleteWasteItem_ti e m i = execDelete e (db_ti m) i"

text \<open>As in the other variant, the element write goes through the shared backing array.
  Nothing has been appended for the new item: the write lands on the last element the
  list already has, and panics when there is none.\<close>

definition addWasteItem_ti ::
  "('q, 's) env \<Rightarrow> ('q, 's) model_ti \<Rightarrow> 'q wasteItem
     \<Rightarrow> (string option \<times> ('q, 's) model_ti) outcome" where
  "addWasteItem_ti e m item =
     (case execInsert e (db_ti m) (name item) (quantity item) (wasteType item)
             (location item) (method_w item) of
        (Inl x, d) \<Rightarrow> Done (Some x, m\<lparr>db_ti := d\<rparr>)
      | (Inr i, d) \<Rightarrow>
          (case setLast (\<lambda>_. item\<lparr>id_w := i\<rparr>) (waste_ti m) of
             Panic \<Rightarrow> Panic
           | Done ws \<Rightarrow> Done (None, m\<lparr>db_ti := d, waste_ti := ws\<rparr>)))"

definition submitWasteItem ::
  "('q, 's) env \<Rightarrow> ('q, 's) model_ti \<Rightarrow> (('q, 's) model_ti \<times> cmd) outcome" where
  "submitWasteItem e m =
     (if length (inputs m) < 2 then Panic
      else
        (case parseFloat e (Value (inputs m ! 1)) of
           Inl x \<Rightarrow> Done (m\<lparr>err_ti := Some (''invalid quantity: '' @ x)\<rparr>, NoCmd)
         | Inr q \<Rightarrow>
             (if length (inputs m) < 5 then Panic
              else
                (case addWasteItem_ti e m
                        \<lparr>id_w = 0, name = Value (inputs m ! 0), quantity = q,
                         wasteType = Value (inputs m ! 2), location = Value (inputs m ! 3),
                         method_w = Value (inputs m ! 4)\<rparr> of
                   Panic \<Rightarrow> Panic
                 | Done (Some x, m') \<Rightarrow>
                     Done (m'\<lparr>err_ti := Some (''failed to add item: '' @ x)\<rparr>, NoCmd)
                 | Done (None, m') \<Rightarrow>
                     Done (m'\<lparr>inputmode_ti := normal,
                              inputs := map (SetValue []) (inputs m'),
                              focusIndex := 0\<rparr>, NoCmd)))))"

definition updateAdding ::
  "('q, 's) env \<Rightarrow> ('q, 's) model_ti \<Rightarrow> string \<Rightarrow> (('q, 's) model_ti \<times> cmd) outcome" where
  "updateAdding e m k =
     (if k = ''enter'' then
        (if focusIndex m < int (length (inputs m)) - 1 then
           (case focusAt (focusIndex m + 1) (inputs m) of
              Panic \<Rightarrow> Panic
            | Done ts \<Rightarrow> Done (m\<lparr>focusIndex := focusIndex m + 1, inputs := ts\<rparr>, InputCmd))
         else submitWasteItem e m)
      else if k = ''esc'' then Done (m\<lparr>inputmode_ti := normal, focusIndex := 0\<rparr>, NoCmd)
      else Done (m, NoCmd))"

definition updateNormal_ti ::
  "('q, 's) env \<Rightarrow> ('q, 's) model_ti \<Rightarrow> string \<Rightarrow> (('q, 's) model_ti \<times> cmd) outcome" where
  "updateNormal_ti e m k =
     (if k = ''ctrl+c'' \<or> k = ''q'' then Done (m, Quit)
      else if k = ''ctrl+r'' then
        Done (m\<lparr>cursorMode := (if cursorMode m + 1 > CursorHide then CursorBlink
                                 else cursorMode m + 1)\<rparr>, InputCmd)
      else if k = ''tab'' \<or> k = ''shift+tab'' \<or> k = ''up'' \<or> k = ''down'' then
        (if k = ''enter'' \<and> focusIndex m = int (length (inputs m)) then Done (m, Quit)
         else
           (let f = (if k = ''up'' \<or> k = ''shift+tab'' then focusIndex m - 1
                     else focusIndex m + 1);
                f' = (if f > int (length (inputs m)) then 0
                      else if f < 0 then int (length (inputs m)) else f)
            in Done (m\<lparr>focusIndex := f', inputs := refocus f' (inputs m)\<rparr>, InputCmd)))
      else if k = ''a'' then
        (case focusAt 0 (inputs m) of
           Panic \<Rightarrow> Panic
         | Done ts \<Rightarrow>
             Done (m\<lparr>inputmode_ti := addingName, focusIndex := 0, inputs := ts\<rparr>, InputCmd))
      else if k = ''d'' then
        (if length (waste_ti m) > 0 then
           (if 0 \<le> cursor_ti m \<and> cursor_ti m < int (length (waste_ti m)) then
              (case deleteWasteItem_ti e m (id_w (waste_ti m ! nat (cursor_ti m))) of
                 (Some x, d) \<Rightarrow>
                   Done (m\<lparr>db_ti := d, err_ti := Some (''failed to delete item: '' @ x)\<rparr>, NoCmd)
               | (None, d) \<Rightarrow>
                   (let ws = removeAt (nat (cursor_ti m)) (waste_ti m);
                        c = (if cursor_ti m \<ge> int (length ws) then int (length ws) - 1
                             else cursor_ti m)
                    in Done (m\<lparr>db_ti := d, waste_ti := ws, cursor_ti := c\<rparr>, NoCmd)))
            else Panic)
         else Done (m, NoCmd))
      else Done (m, NoCmd))"

definition Update_ti ::
  "('q, 's) env \<Rightarrow> ('o \<Rightarrow> textinput \<Rightarrow> textinput) \<Rightarrow> ('q, 's) model_ti \<Rightarrow> 'o msg
     \<Rightarrow> (('q, 's) model_ti \<times> cmd) outcome" where
  "Update_ti e tiUpdate m x =
     (case x of
        KeyMsg k \<Rightarrow>
          (case inputmode_ti m of
             normal \<Rightarrow> updateNormal_ti e m k
           | _ \<Rightarrow> updateAdding e m k)
      | OtherMsg y \<Rightarrow> Done (updateInputs tiUpdate m y))"

fun run_ti ::
  "('q, 's) env \<Rightarrow> ('o \<Rightarrow> textinput \<Rightarrow> textinput) \<Rightarrow> ('q, 's) model_ti \<Rightarrow> 'o msg list
     \<Rightarrow> ('q, 's) model_ti outcome" where
  "run_ti e u m [] = Done m"
| "run_ti e u m (x # xs) =
     (case Update_ti e u m x of
        Panic \<Rightarrow> Panic
      | Done (m', c) \<Rightarrow> (if c = Quit then Done m' else run_ti e u m' xs))"

subsection \<open>A store and a parser for the examples\<close>

text \<open>
  An in-memory store that records every call it receives. While \<open>online\<close> it inserts and
  deletes rows and hands out fresh identifiers; otherwise every statement fails. The parser
  knows the two numerals of the examples and rejects everything else, as
  \<open>strconv.ParseFloat\<close> rejects \<open>abc\<close> and the empty string.
\<close>

datatype call = InsertCall string real string string string | DeleteCall int

record store =
  online :: bool
  rows :: "real wasteItem list"
  calls :: "call list"

definition testInsert ::
  "store \<Rightarrow> string \<Rightarrow> real \<Rightarrow> string \<Rightarrow> string \<Rightarrow> string \<Rightarrow> (string + int) \<times> store" where
  "testInsert s n q t l me =
     (if online s then
        (Inr (int (length (calls s)) + 1),
         s\<lparr>rows := rows s @ [\<lparr>id_w = int (length (calls s)) + 1, name = n, quantity = q,
                                wasteType = t, location = l, method_w = me\<rparr>],
           calls := calls s @ [InsertCall n q t l me]\<rparr>)
      else (Inl ''database is locked'', s\<lparr>calls := calls s @ [InsertCall n q t l me]\<rparr>))"

definition testDelete :: "store \<Rightarrow> int \<Rightarrow> string option \<times> store" where
  "testDelete s i =
     (if online s then
        (None, s\<lparr>rows := filter (\<lambda>w. id_w w \<noteq> i) (rows s), calls := calls s @ [DeleteCall i]\<rparr>)
      else (Some ''database is locked'', s\<lparr>calls := calls s @ [DeleteCall i]\<rparr>))"

definition testParse :: "string \<Rightarrow> string + real" where
  "testParse s =
     (if s = ''3.2'' then Inr (16 / 5)
      else if s = ''12.5'' then Inr (25 / 2)
      else Inl ''invalid syntax'')"

definition testEnv :: "(real, store) env" where
  "testEnv = \<lparr>parseFloat = testParse, execInsert = testInsert, execDelete = testDelete,
              queryAll = (\<lambda>s. if online s then Inr (rows s) else Inl ''database is locked'')\<rparr>"

definition storeUp :: store where
  "storeUp = \<lparr>online = True, rows = [], calls = []\<rparr>"

definition storeDown :: store where
  "storeDown = \<lparr>online = False, rows = [], calls = []\<rparr>"

definition item1 :: "real wasteItem" where
  "item1 = \<lparr>id_w = 7, name = ''Paint'', quantity = 1, wasteType = ''Liquid'',
            location = ''Bay2'', method_w = ''Landfill''\<rparr>"

definition item2 :: "real wasteItem" where
  "item2 = \<lparr>id_w = 9, name = ''Glass'', quantity = 2, wasteType = ''Solid'',
            location = ''Bay3'', method_w = ''Recycle''\<rparr>"

text \<open>A browsing state of the single-buffer variant over a given store and list.\<close>

definition browsing_sb :: "store \<Rightarrow> real wasteItem list \<Rightarrow> int \<Rightarrow> (real, store) model_sb" where
  "browsing_sb s ws c =
     \<lparr>db_sb = s, waste_sb = ws, cursor_sb = c, input = [], inputmode_sb = normal, err_sb = None\<rparr>"

text \<open>A state of the textinput variant with the five field texts given and the focus on
  field \<open>f\<close>.\<close>

definition form_ti ::
  "store \<Rightarrow> real wasteItem list \<Rightarrow> inputmode \<Rightarrow> string list \<Rightarrow> int \<Rightarrow> (real, store) model_ti" where
  "form_ti s ws md vs f =
     \<lparr>db_ti = s, waste_ti = ws, cursor_ti = 0,
      inputs = map (\<lambda>(i, v). \<lparr>tvalue = v, focus = (int i = f)\<rparr>) (enumerate 0 vs),
      inputmode_ti = md, err_ti = None, cursorMode = 0, focusIndex = f\<rparr>"

text \<open>The widget model used in the examples ignores every message that is not a key.\<close>

definition tiIgnore :: "unit \<Rightarrow> textinput \<Rightarrow> textinput" where
  "tiIgnore x t = t"

text \<open>The item of the end-to-end example with identifier \<open>i\<close>, and the key presses
  that enter it: \<open>a\<close>, then each field's text followed by \<open>enter\<close>.\<close>

definition oil :: "int \<Rightarrow> real wasteItem" where
  "oil i = \<lparr>id_w = i, name = ''Oil'', quantity = 16 / 5, wasteType = ''Liquid'',
            location = ''Bay1'', method_w = ''Incinerate''\<rparr>"

definition oilKeys :: "string list" where
  "oilKeys = [''a'', ''O'', ''i'', ''l'', ''enter'', ''3'', ''.'', ''2'', ''enter'',
              ''L'', ''i'', ''q'', ''u'', ''i'', ''d'', ''enter'',
              ''B'', ''a'', ''y'', ''1'', ''enter'',
              ''I'', ''n'', ''c'', ''i'', ''n'', ''e'', ''r'', ''a'', ''t'', ''e'', ''enter'']"

text \<open>The single-buffer variant waiting for the quantity of a new item, with the text
  \<open>s\<close> typed and an error left over from before.\<close>

definition quantityForm :: "string \<Rightarrow> (real, store) model_sb" where
  "quantityForm s = \<lparr>db_sb = storeUp, waste_sb = [item1, newItem ''Oil''], cursor_sb = 0,
                     input = s, inputmode_sb = addingQuantity, err_sb = Some ''stale''\<rparr>"

text \<open>The single-buffer variant waiting for the name of a new item, with the text \<open>s\<close>
  typed, over an empty list.\<close>

definition nameForm :: "string \<Rightarrow> (real, store) model_sb" where
  "nameForm s = \<lparr>db_sb = storeUp, waste_sb = [], cursor_sb = 0, input = s,
                 inputmode_sb = addingName, err_sb = None\<rparr>"

text \<open>The defining equations, grouped for unfolding on concrete states.\<close>

lemmas sb_defs = Update_sb_def updateNormal_sb_def updateAddingText_def updateAddingQuantity_def
  addWasteItem_sb_def deleteWasteItem_sb_def setLast_def removeAt_def newItem_def
  initialModel_sb_def loadWasteItems_def

lemmas ti_defs = Update_ti_def updateNormal_ti_def updateAdding_def submitWasteItem_def
  addWasteItem_ti_def deleteWasteItem_ti_def setLast_def removeAt_def focusAt_def refocus_def
  Focus_def Blur_def SetValue_def Value_def updateInputs_def CursorBlink_def CursorHide_def
  initialModel_ti_def loadWasteItems_def

lemmas test_defs = testEnv_def testInsert_def testDelete_def testParse_def storeUp_def
  storeDown_def item1_def item2_def browsing_sb_def form_ti_def tiIgnore_def oil_def
  oilKeys_def quantityForm_def nameForm_def

section \<open>Browsing: moving the cursor\<close>

text \<open>In the single-buffer variant a move key keeps the list and moves the cursor by at
  most one place inside the bounds it already respected.\<close>

lemma upd_move_sb:
  assumes "inputmode_sb m = normal" and "k \<in> {''up'', ''k'', ''down'', ''j''}"
  shows "\<exists>m'. Update_sb e m (KeyMsg k :: 'o msg) = Done (m', NoCmd) \<and> waste_sb m' = waste_sb m
           \<and> inputmode_sb m' = normal
           \<and> (0 \<le> cursor_sb m \<longrightarrow> 0 \<le> cursor_sb m')
           \<and> (cursor_sb m < int (length (waste_sb m)) \<longrightarrow> cursor_sb m' < int (length (waste_sb m)))"
  using assms by (auto simp: Update_sb_def updateNormal_sb_def)

lemma run_moves_sb:
  assumes "set ks \<subseteq> {''up'', ''k'', ''down'', ''j''}" and "inputmode_sb m = normal"
    and "0 \<le> cursor_sb m" and "cursor_sb m < int (length (waste_sb m))"
  shows "\<exists>m'. run_sb e m (map KeyMsg ks :: 'o msg list) = Done m' \<and> waste_sb m' = waste_sb m
           \<and> inputmode_sb m' = normal \<and> 0 \<le> cursor_sb m' \<and> cursor_sb m' < int (length (waste_sb m'))"
  using assms
proof (induction ks arbitrary: m)
  case Nil
  then show ?case by simp
next
  case (Cons k ks)
  from Cons.prems(1) have k: "k \<in> {''up'', ''k'', ''down'', ''j''}" and ks: "set ks \<subseteq> {''up'', ''k'', ''down'', ''j''}"
    by simp_all
  from upd_move_sb[OF Cons.prems(2) k, of e]
  obtain m1 where s: "Update_sb e m (KeyMsg k :: 'o msg) = Done (m1, NoCmd)" and w: "waste_sb m1 = waste_sb m"
    and md: "inputmode_sb m1 = normal"
    and c: "0 \<le> cursor_sb m \<longrightarrow> 0 \<le> cursor_sb m1"
      "cursor_sb m < int (length (waste_sb m)) \<longrightarrow> cursor_sb m1 < int (length (waste_sb m))"
    by blast
  have r1: "0 \<le> cursor_sb m1" and r2: "cursor_sb m1 < int (length (waste_sb m1))"
    using c w Cons.prems(3,4) by simp_all
  from Cons.IH[OF ks md r1 r2]
  obtain m' where "run_sb e m1 (map KeyMsg ks :: 'o msg list) = Done m'" "waste_sb m' = waste_sb m1"
    "inputmode_sb m' = normal" "0 \<le> cursor_sb m'" "cursor_sb m' < int (length (waste_sb m'))"
    by blast
  then show ?case using s w by simp
qed

lemma run_moves_empty_sb:
  assumes "set ks \<subseteq> {''up'', ''k'', ''down'', ''j''}" and "inputmode_sb m = normal"
    and "waste_sb m = []" and "- 1 \<le> cursor_sb m" and "cursor_sb m \<le> 0"
  shows "run_sb e m (map KeyMsg ks :: 'o msg list) = Done m"
  using assms(1)
proof (induction ks)
  case Nil
  then show ?case by simp
next
  case (Cons k ks)
  from Cons.prems have k: "k \<in> {''up'', ''k'', ''down'', ''j''}" and ks: "set ks \<subseteq> {''up'', ''k'', ''down'', ''j''}"
    by simp_all
  have "Update_sb e m (KeyMsg k :: 'o msg) = Done (m, NoCmd)"
    using k assms(2-5) by (auto simp: Update_sb_def updateNormal_sb_def)
  then show ?case using Cons.IH[OF ks] by simp
qed


lemma upd_move_ti:
  assumes "inputmode_ti n = normal" and "k \<in> {''up'', ''k'', ''down'', ''j''}"
  shows "\<exists>n' c. Update_ti e u n (KeyMsg k :: 'o msg) = Done (n', c) \<and> c \<noteq> Quit
           \<and> waste_ti n' = waste_ti n \<and> inputmode_ti n' = normal \<and> cursor_ti n' = cursor_ti n"
  using assms by (auto simp: Update_ti_def updateNormal_ti_def Let_def)

lemma run_moves_ti:
  assumes "set ks \<subseteq> {''up'', ''k'', ''down'', ''j''}" and "inputmode_ti n = normal"
  shows "\<exists>n'. run_ti e u n (map KeyMsg ks :: 'o msg list) = Done n' \<and> waste_ti n' = waste_ti n
           \<and> inputmode_ti n' = normal \<and> cursor_ti n' = cursor_ti n"
  using assms
proof (induction ks arbitrary: n)
  case Nil
  then show ?case by simp
next
  case (Cons k ks)
  from Cons.prems(1) have k: "k \<in> {''up'', ''k'', ''down'', ''j''}" and ks: "set ks \<subseteq> {''up'', ''k'', ''down'', ''j''}"
    by simp_all
  from upd_move_ti[OF Cons.prems(2) k, of e u]
  obtain n1 c where s: "Update_ti e u n (KeyMsg k :: 'o msg) = Done (n1, c)" and cq: "c \<noteq> Quit"
    and w: "waste_ti n1 = waste_ti n"
    and md: "inputmode_ti n1 = normal" and cu: "cursor_ti n1 = cursor_ti n"
    by blast
  from Cons.IH[OF ks md]
  obtain n' where "run_ti e u n1 (map KeyMsg ks :: 'o msg list) = Done n'" "waste_ti n' = waste_ti n1"
    "inputmode_ti n' = normal" "cursor_ti n' = cursor_ti n1"
    by blast
  then show ?case using s w cq cu by simp
qed

text \<open>
  Claim C4. For every sequence of move-up and move-down keys processed in browsing mode,
  the cursor stays inside \<open>[0, len(list) - 1]\<close> and never wraps; a move is a no-op on an
  empty list.

  In the single-buffer variant a run of move keys from a state whose cursor is in range
  ends in a state with the same list and a cursor in range; one step up is
  \<open>max 0 (cursor - 1)\<close> and one step down is \<open>min (len - 1) (cursor + 1)\<close>, so the
  cursor stops at either end; on an empty list (cursor 0 at start-up, -1 after the last
  item was deleted) the whole run changes nothing. In the textinput variant the same keys
  move the form focus and leave cursor and list as they are.
\<close>

theorem cursor_moves_stay_in_range:
  assumes "set ks \<subseteq> {''up'', ''k'', ''down'', ''j''}"
    and "inputmode_sb m = normal" and "0 \<le> cursor_sb m" and "cursor_sb m < int (length (waste_sb m))"
    and "inputmode_ti n = normal"
  shows "(\<exists>m'. run_sb e m (map KeyMsg ks :: 'o msg list) = Done m' \<and> waste_sb m' = waste_sb m
            \<and> 0 \<le> cursor_sb m' \<and> cursor_sb m' < int (length (waste_sb m')))
       \<and> (\<forall>k \<in> {''up'', ''k''}. Update_sb e m (KeyMsg k :: 'o msg)
              = Done (m\<lparr>cursor_sb := max 0 (cursor_sb m - 1)\<rparr>, NoCmd))
       \<and> (\<forall>k \<in> {''down'', ''j''}. Update_sb e m (KeyMsg k :: 'o msg)
              = Done (m\<lparr>cursor_sb := min (int (length (waste_sb m)) - 1) (cursor_sb m + 1)\<rparr>, NoCmd))
       \<and> (\<forall>m0. inputmode_sb m0 = normal \<and> waste_sb m0 = [] \<and> - 1 \<le> cursor_sb m0 \<and> cursor_sb m0 \<le> 0
              \<longrightarrow> run_sb e m0 (map KeyMsg ks :: 'o msg list) = Done m0)
       \<and> (\<exists>n'. run_ti e u n (map KeyMsg ks :: 'o msg list) = Done n' \<and> waste_ti n' = waste_ti n
              \<and> cursor_ti n' = cursor_ti n)"
proof -
  have a: "\<exists>m'. run_sb e m (map KeyMsg ks :: 'o msg list) = Done m' \<and> waste_sb m' = waste_sb m
            \<and> 0 \<le> cursor_sb m' \<and> cursor_sb m' < int (length (waste_sb m'))"
    using run_moves_sb[OF assms(1-4), of e] by blast
  have b: "\<forall>k \<in> {''up'', ''k''}. Update_sb e m (KeyMsg k :: 'o msg)
             = Done (m\<lparr>cursor_sb := max 0 (cursor_sb m - 1)\<rparr>, NoCmd)"
    using assms(2,3) by (simp add: Update_sb_def updateNormal_sb_def max_def)
  have c: "\<forall>k \<in> {''down'', ''j''}. Update_sb e m (KeyMsg k :: 'o msg)
              = Done (m\<lparr>cursor_sb := min (int (length (waste_sb m)) - 1) (cursor_sb m + 1)\<rparr>, NoCmd)"
    using assms(2,4) by (simp add: Update_sb_def updateNormal_sb_def min_def)
  have d: "\<forall>m0. inputmode_sb m0 = normal \<and> waste_sb m0 = [] \<and> - 1 \<le> cursor_sb m0 \<and> cursor_sb m0 \<le> 0
              \<longrightarrow> run_sb e m0 (map KeyMsg ks :: 'o msg list) = Done m0"
    using run_moves_empty_sb[OF assms(1)] by blast
  have f: "\<exists>n'. run_ti e u n (map KeyMsg ks :: 'o msg list) = Done n' \<and> waste_ti n' = waste_ti n
              \<and> cursor_ti n' = cursor_ti n"
    using run_moves_ti[OF assms(1,5), of e u] by blast
  from a b c d f show ?thesis by (intro conjI)
qed

theorem cursor_moves_stay_in_range_witness:
  "set [''down'', ''down'', ''j'', ''up''] \<subseteq> {''up'', ''k'', ''down'', ''j''}
   \<and> inputmode_sb (browsing_sb storeUp [item1, item2] 0) = normal
   \<and> 0 \<le> cursor_sb (browsing_sb storeUp [item1, item2] 0)
   \<and> cursor_sb (browsing_sb storeUp [item1, item2] 0)
        < int (length (waste_sb (browsing_sb storeUp [item1, item2] 0)))
   \<and> inputmode_ti (form_ti storeUp [item1, item2] normal [[], [], [], [], []] 0) = normal
   \<and> run_sb testEnv (browsing_sb storeUp [item1, item2] 0)
        (map KeyMsg [''down'', ''down'', ''j'', ''up''] :: unit msg list)
      = Done (browsing_sb storeUp [item1, item2] 0)
   \<and> Update_sb testEnv (browsing_sb storeUp [item1, item2] 0) (KeyMsg ''up'' :: unit msg)
      = Done (browsing_sb storeUp [item1, item2] 0, NoCmd)
   \<and> Update_sb testEnv (browsing_sb storeUp [item1, item2] 0) (KeyMsg ''down'' :: unit msg)
      = Done (browsing_sb storeUp [item1, item2] 1, NoCmd)
   \<and> run_sb testEnv (browsing_sb storeUp [] 0)
        (map KeyMsg [''down'', ''down'', ''j'', ''up''] :: unit msg list)
      = Done (browsing_sb storeUp [] 0)
   \<and> map_outcome cursor_ti
        (run_ti testEnv tiIgnore (form_ti storeUp [item1, item2] normal [[], [], [], [], []] 0)
           (map KeyMsg [''down'', ''down'', ''j'', ''up''] :: unit msg list))
      = Done 0"
  using cursor_moves_stay_in_range [of "[''down'', ''down'', ''j'', ''up'']"
      "browsing_sb storeUp [item1, item2] 0"
      "form_ti storeUp [item1, item2] normal [[], [], [], [], []] 0" testEnv tiIgnore]
  by (simp add: sb_defs ti_defs test_defs)

section \<open>Browsing: deleting the selected item\<close>

text \<open>The \<open>d\<close> branch is the same text in both variants. With a cursor that addresses an
  item, the store is asked to delete that item's identifier; the answer \<open>(r, d)\<close> of the
  store decides the rest.\<close>

lemma delete_selected_sb:
  assumes "inputmode_sb m = normal" and "waste_sb m \<noteq> []"
    and "0 \<le> cursor_sb m" and "cursor_sb m < int (length (waste_sb m))"
    and "execDelete e (db_sb m) (id_w (waste_sb m ! nat (cursor_sb m))) = (r, d)"
  shows "\<exists>m'. Update_sb e m (KeyMsg ''d'' :: 'o msg) = Done (m', NoCmd) \<and> db_sb m' = d
            \<and> inputmode_sb m' = normal \<and> input m' = input m
            \<and> (r = None \<longrightarrow>
                 waste_sb m' = take (nat (cursor_sb m)) (waste_sb m)
                               @ drop (nat (cursor_sb m) + 1) (waste_sb m)
                 \<and> length (waste_sb m') = length (waste_sb m) - 1
                 \<and> cursor_sb m' = min (cursor_sb m) (int (length (waste_sb m')) - 1)
                 \<and> (waste_sb m' = [] \<longrightarrow> cursor_sb m' = - 1)
                 \<and> (waste_sb m' \<noteq> [] \<longrightarrow>
                       0 \<le> cursor_sb m' \<and> cursor_sb m' < int (length (waste_sb m')))
                 \<and> err_sb m' = err_sb m)
            \<and> (\<forall>x. r = Some x \<longrightarrow>
                 err_sb m' = Some (''failed to delete item: '' @ x)
                 \<and> waste_sb m' = waste_sb m \<and> cursor_sb m' = cursor_sb m)"
proof (cases r)
  case None
  then show ?thesis using assms
    by (simp add: Update_sb_def updateNormal_sb_def deleteWasteItem_sb_def removeAt_def
        Let_def min_def)
next
  case (Some x)
  then show ?thesis using assms
    by (simp add: Update_sb_def updateNormal_sb_def deleteWasteItem_sb_def)
qed

lemma delete_selected_ti:
  assumes "inputmode_ti n = normal" and "waste_ti n \<noteq> []"
    and "0 \<le> cursor_ti n" and "cursor_ti n < int (length (waste_ti n))"
    and "execDelete e (db_ti n) (id_w (waste_ti n ! nat (cursor_ti n))) = (r, d)"
  shows "\<exists>n'. Update_ti e u n (KeyMsg ''d'' :: 'o msg) = Done (n', NoCmd) \<and> db_ti n' = d
            \<and> inputmode_ti n' = normal \<and> inputs n' = inputs n \<and> focusIndex n' = focusIndex n
            \<and> (r = None \<longrightarrow>
                 waste_ti n' = take (nat (cursor_ti n)) (waste_ti n)
                               @ drop (nat (cursor_ti n) + 1) (waste_ti n)
                 \<and> length (waste_ti n') = length (waste_ti n) - 1
                 \<and> cursor_ti n' = min (cursor_ti n) (int (length (waste_ti n')) - 1)
                 \<and> (waste_ti n' = [] \<longrightarrow> cursor_ti n' = - 1)
                 \<and> (waste_ti n' \<noteq> [] \<longrightarrow>
                       0 \<le> cursor_ti n' \<and> cursor_ti n' < int (length (waste_ti n')))
                 \<and> err_ti n' = err_ti n)
            \<and> (\<forall>x. r = Some x \<longrightarrow>
                 err_ti n' = Some (''failed to delete item: '' @ x)
                 \<and> waste_ti n' = waste_ti n \<and> cursor_ti n' = cursor_ti n)"
proof (cases r)
  case None
  then show ?thesis using assms
    by (simp add: Update_ti_def updateNormal_ti_def deleteWasteItem_ti_def removeAt_def
        Let_def min_def)
next
  case (Some x)
  then show ?thesis using assms
    by (simp add: Update_ti_def updateNormal_ti_def deleteWasteItem_ti_def)
qed

text \<open>
  Where the cursor addresses an item (\<open>0 \<le> cursor < len\<close>), the delete key does in both
  variants what the specification says: the store delete is called for the item at the
  cursor; on success that item is removed and the cursor becomes \<open>min cursor (len - 1)\<close>
  of the shortened list, which is -1 (no selection) when the list became empty and a valid
  index otherwise; on store failure a delete-failure error is set and list and cursor are
  unchanged. Here \<open>(r, d)\<close> and \<open>(r', d')\<close> are the answers of the store. The textinput
  variant keeps the cursor valid along every run; the single-buffer variant does not.
\<close>

theorem delete_selected_item:
  assumes "inputmode_sb m = normal" and "waste_sb m \<noteq> []"
    and "0 \<le> cursor_sb m" and "cursor_sb m < int (length (waste_sb m))"
    and "execDelete e (db_sb m) (id_w (waste_sb m ! nat (cursor_sb m))) = (r, d)"
    and "inputmode_ti n = normal" and "waste_ti n \<noteq> []"
    and "0 \<le> cursor_ti n" and "cursor_ti n < int (length (waste_ti n))"
    and "execDelete e (db_ti n) (id_w (waste_ti n ! nat (cursor_ti n))) = (r', d')"
  shows "(\<exists>m'. Update_sb e m (KeyMsg ''d'' :: 'o msg) = Done (m', NoCmd) \<and> db_sb m' = d
            \<and> inputmode_sb m' = normal \<and> input m' = input m
            \<and> (r = None \<longrightarrow>
                 waste_sb m' = take (nat (cursor_sb m)) (waste_sb m)
                               @ drop (nat (cursor_sb m) + 1) (waste_sb m)
                 \<and> length (waste_sb m') = length (waste_sb m) - 1
                 \<and> cursor_sb m' = min (cursor_sb m) (int (length (waste_sb m')) - 1)
                 \<and> (waste_sb m' = [] \<longrightarrow> cursor_sb m' = - 1)
                 \<and> (waste_sb m' \<noteq> [] \<longrightarrow>
                       0 \<le> cursor_sb m' \<and> cursor_sb m' < int (length (waste_sb m')))
                 \<and> err_sb m' = err_sb m)
            \<and> (\<forall>x. r = Some x \<longrightarrow>
                 err_sb m' = Some (''failed to delete item: '' @ x)
                 \<and> waste_sb m' = waste_sb m \<and> cursor_sb m' = cursor_sb m))
       \<and> (\<exists>n'. Update_ti e u n (KeyMsg ''d'' :: 'o msg) = Done (n', NoCmd) \<and> db_ti n' = d'
            \<and> inputmode_ti n' = normal \<and> inputs n' = inputs n \<and> focusIndex n' = focusIndex n
            \<and> (r' = None \<longrightarrow>
                 waste_ti n' = take (nat (cursor_ti n)) (waste_ti n)
                               @ drop (nat (cursor_ti n) + 1) (waste_ti n)
                 \<and> length (waste_ti n') = length (waste_ti n) - 1
                 \<and> cursor_ti n' = min (cursor_ti n) (int (length (waste_ti n')) - 1)
                 \<and> (waste_ti n' = [] \<longrightarrow> cursor_ti n' = - 1)
                 \<and> (waste_ti n' \<noteq> [] \<longrightarrow>
                       0 \<le> cursor_ti n' \<and> cursor_ti n' < int (length (waste_ti n')))
                 \<and> err_ti n' = err_ti n)
            \<and> (\<forall>x. r' = Some x \<longrightarrow>
                 err_ti n' = Some (''failed to delete item: '' @ x)
                 \<and> waste_ti n' = waste_ti n \<and> cursor_ti n' = cursor_ti n))"
  by (rule conjI [OF delete_selected_sb [OF assms(1-5)] delete_selected_ti [OF assms(6-10)]])

text \<open>The list of two items with the cursor on the first: with the store up the second
  item is left under the cursor; with the store down nothing but the error changes.\<close>

theorem delete_selected_item_witness:
  "inputmode_sb (browsing_sb storeUp [item1, item2] 0) = normal
   \<and> waste_sb (browsing_sb storeUp [item1, item2] 0) \<noteq> []
   \<and> 0 \<le> cursor_sb (browsing_sb storeUp [item1, item2] 0)
   \<and> cursor_sb (browsing_sb storeUp [item1, item2] 0)
        < int (length (waste_sb (browsing_sb storeUp [item1, item2] 0)))
   \<and> execDelete testEnv (db_sb (browsing_sb storeUp [item1, item2] 0))
        (id_w (waste_sb (browsing_sb storeUp [item1, item2] 0)
                 ! nat (cursor_sb (browsing_sb storeUp [item1, item2] 0))))
      = (None, storeUp\<lparr>calls := [DeleteCall 7]\<rparr>)
   \<and> inputmode_ti (form_ti storeDown [item1, item2] normal [[], [], [], [], []] 0) = normal
   \<and> waste_ti (form_ti storeDown [item1, item2] normal [[], [], [], [], []] 0) \<noteq> []
   \<and> 0 \<le> cursor_ti (form_ti storeDown [item1, item2] normal [[], [], [], [], []] 0)
   \<and> cursor_ti (form_ti storeDown [item1, item2] normal [[], [], [], [], []] 0)
        < int (length (waste_ti (form_ti storeDown [item1, item2] normal [[], [], [], [], []] 0)))
   \<and> execDelete testEnv (db_ti (form_ti storeDown [item1, item2] normal [[], [], [], [], []] 0))
        (id_w (waste_ti (form_ti storeDown [item1, item2] normal [[], [], [], [], []] 0)
                 ! nat (cursor_ti (form_ti storeDown [item1, item2] normal [[], [], [], [], []] 0))))
      = (Some ''database is locked'', storeDown\<lparr>calls := [DeleteCall 7]\<rparr>)
   \<and> Update_sb testEnv (browsing_sb storeUp [item1, item2] 0) (KeyMsg ''d'' :: unit msg)
      = Done (browsing_sb (storeUp\<lparr>calls := [DeleteCall 7]\<rparr>) [item2] 0, NoCmd)
   \<and> Update_ti testEnv tiIgnore (form_ti storeDown [item1, item2] normal [[], [], [], [], []] 0)
        (KeyMsg ''d'' :: unit msg)
      = Done ((form_ti (storeDown\<lparr>calls := [DeleteCall 7]\<rparr>) [item1, item2] normal
                 [[], [], [], [], []] 0)
              \<lparr>err_ti := Some ''failed to delete item: database is locked''\<rparr>, NoCmd)"
  using delete_selected_item [of "browsing_sb storeUp [item1, item2] 0" testEnv
      None "storeUp\<lparr>calls := [DeleteCall 7]\<rparr>"
      "form_ti storeDown [item1, item2] normal [[], [], [], [], []] 0"
      "Some ''database is locked''" "storeDown\<lparr>calls := [DeleteCall 7]\<rparr>" tiIgnore]
  by (simp add: sb_defs ti_defs test_defs)

text \<open>
  Claim C3 at a failing input. In the single-buffer variant, start from the model loaded
  from a store with one row. Deleting that row leaves the empty list with cursor -1, and
  the keys of the end-to-end example then add an item the store accepts: the state is
  browsing, the list holds the new item and the cursor is still -1. The delete key on
  this non-empty list reads the list at index -1 and panics: no store delete is called
  and nothing is removed.
\<close>

theorem delete_on_stale_cursor_example:
  "initialModel_sb testEnv (storeUp\<lparr>rows := [item1]\<rparr>)
   = Inr (browsing_sb (storeUp\<lparr>rows := [item1]\<rparr>) [item1] 0)
   \<and> run_sb testEnv (browsing_sb (storeUp\<lparr>rows := [item1]\<rparr>) [item1] 0)
        (map KeyMsg (''d'' # oilKeys) :: unit msg list)
     = Done (browsing_sb
               (storeUp\<lparr>rows := [oil 2],
                  calls := [DeleteCall 7,
                            InsertCall ''Oil'' (16 / 5) ''Liquid'' ''Bay1'' ''Incinerate'']\<rparr>)
               [oil 2] (- 1))
   \<and> Update_sb testEnv
        (browsing_sb
           (storeUp\<lparr>rows := [oil 2],
              calls := [DeleteCall 7,
                        InsertCall ''Oil'' (16 / 5) ''Liquid'' ''Bay1'' ''Incinerate'']\<rparr>)
           [oil 2] (- 1))
        (KeyMsg ''d'' :: unit msg)
     = Panic
   \<and> run_sb testEnv (browsing_sb (storeUp\<lparr>rows := [item1]\<rparr>) [item1] 0)
        (map KeyMsg (''d'' # oilKeys @ [''d'']) :: unit msg list)
     = Panic"
  by (simp add: sb_defs test_defs)

section \<open>Textinput variant: where a submitted item is written\<close>

text \<open>
  Claim C10. In the textinput variant the success path of a store insert writes the new
  item at index \<open>len(list) - 1\<close>. With an empty list that index is out of bounds, so a
  successful submission on an empty list panics. With a non-empty list the write replaces
  the last item the list had, and the list keeps its length.

  The state is the form with the focus on the last of the five fields; the quantity text
  parses to \<open>q\<close> and the store answers the insert with the identifier \<open>i\<close>.
\<close>

theorem submit_writes_last_index:
  assumes "inputmode_ti m \<noteq> normal" and "length (inputs m) = 5" and "focusIndex m = 4"
    and "parseFloat e (Value (inputs m ! 1)) = Inr q"
    and "execInsert e (db_ti m) (Value (inputs m ! 0)) q (Value (inputs m ! 2))
           (Value (inputs m ! 3)) (Value (inputs m ! 4)) = (Inr i, d)"
  shows "(waste_ti m = [] \<longrightarrow> Update_ti e u m (KeyMsg ''enter'') = Panic)
       \<and> (waste_ti m \<noteq> [] \<longrightarrow>
            Update_ti e u m (KeyMsg ''enter'')
            = Done (m\<lparr>db_ti := d,
                     waste_ti := (waste_ti m)[length (waste_ti m) - 1 :=
                        \<lparr>id_w = i, name = Value (inputs m ! 0), quantity = q,
                         wasteType = Value (inputs m ! 2), location = Value (inputs m ! 3),
                         method_w = Value (inputs m ! 4)\<rparr>],
                     inputmode_ti := normal,
                     inputs := map (SetValue []) (inputs m),
                     focusIndex := 0\<rparr>, NoCmd))"
  using assms
  by (cases "inputmode_ti m")
     (simp_all add: Update_ti_def updateAdding_def submitWasteItem_def addWasteItem_ti_def setLast_def)

theorem submit_writes_last_index_witness:
  "inputmode_ti (form_ti storeUp [] addingName [''Tar'', ''12.5'', ''Solid'', ''Bay4'', ''Bury''] 4)
     \<noteq> normal
   \<and> length (inputs (form_ti storeUp [] addingName
        [''Tar'', ''12.5'', ''Solid'', ''Bay4'', ''Bury''] 4)) = 5
   \<and> focusIndex (form_ti storeUp [] addingName
        [''Tar'', ''12.5'', ''Solid'', ''Bay4'', ''Bury''] 4) = 4
   \<and> parseFloat testEnv ''12.5'' = Inr (25 / 2)
   \<and> execInsert testEnv storeUp ''Tar'' (25 / 2) ''Solid'' ''Bay4'' ''Bury''
      = (Inr 1, storeUp\<lparr>rows := [\<lparr>id_w = 1, name = ''Tar'', quantity = 25 / 2,
                                     wasteType = ''Solid'', location = ''Bay4'',
                                     method_w = ''Bury''\<rparr>],
                        calls := [InsertCall ''Tar'' (25 / 2) ''Solid'' ''Bay4'' ''Bury'']\<rparr>)
   \<and> waste_ti (form_ti storeUp [] addingName
        [''Tar'', ''12.5'', ''Solid'', ''Bay4'', ''Bury''] 4) = []
   \<and> Update_ti testEnv tiIgnore
        (form_ti storeUp [] addingName [''Tar'', ''12.5'', ''Solid'', ''Bay4'', ''Bury''] 4)
        (KeyMsg ''enter'' :: unit msg) = Panic"
  using submit_writes_last_index [of
      "form_ti storeUp [] addingName [''Tar'', ''12.5'', ''Solid'', ''Bay4'', ''Bury''] 4"
      testEnv "25 / 2" 1
      "storeUp\<lparr>rows := [\<lparr>id_w = 1, name = ''Tar'', quantity = 25 / 2,
                           wasteType = ''Solid'', location = ''Bay4'', method_w = ''Bury''\<rparr>],
               calls := [InsertCall ''Tar'' (25 / 2) ''Solid'' ''Bay4'' ''Bury'']\<rparr>"
      tiIgnore]
  by (simp add: ti_defs test_defs)

section \<open>The form: confirming the quantity\<close>

text \<open>
  Claim C2, as the code has it. In the single-buffer variant, confirm in quantity mode
  parses the buffer: on failure the invalid-quantity error is set and the mode stays
  \<open>addingQuantity\<close> (the buffer is emptied); on success the quantity is stored in the
  item being built, the error is cleared and the mode advances to \<open>addingWasteType\<close>.
  In the textinput variant, confirm on the quantity field (focus 1) only advances the
  focus; the quantity text is parsed when the last field (focus 4) is confirmed, and a
  parse failure there sets the invalid-quantity error and changes nothing else.
\<close>

theorem quantity_confirm:
  assumes "inputmode_sb m = addingQuantity" and "waste_sb m \<noteq> []"
    and "inputmode_ti n \<noteq> normal" and "length (inputs n) = 5"
  shows "(\<forall>x. parseFloat e (input m) = Inl x \<longrightarrow>
            Update_sb e m (KeyMsg ''enter'' :: 'o msg)
            = Done (m\<lparr>err_sb := Some (''invalid quantity entered: '' @ x), input := []\<rparr>, NoCmd))
       \<and> (\<forall>q. parseFloat e (input m) = Inr q \<longrightarrow>
            Update_sb e m (KeyMsg ''enter'' :: 'o msg)
            = Done (m\<lparr>waste_sb := (waste_sb m)[length (waste_sb m) - 1 :=
                         (waste_sb m ! (length (waste_sb m) - 1))\<lparr>quantity := q\<rparr>],
                     inputmode_sb := addingWasteType, err_sb := None, input := []\<rparr>, NoCmd))
       \<and> (focusIndex n = 1 \<longrightarrow>
            Update_ti e u n (KeyMsg ''enter'' :: 'o msg)
            = Done (n\<lparr>focusIndex := 2, inputs := (inputs n)[2 := Focus (inputs n ! 2)]\<rparr>, InputCmd))
       \<and> (focusIndex n = 4 \<longrightarrow>
            (\<forall>x. parseFloat e (Value (inputs n ! 1)) = Inl x \<longrightarrow>
               Update_ti e u n (KeyMsg ''enter'' :: 'o msg)
               = Done (n\<lparr>err_ti := Some (''invalid quantity: '' @ x)\<rparr>, NoCmd)))"
proof (intro conjI)
  show "\<forall>x. parseFloat e (input m) = Inl x \<longrightarrow>
            Update_sb e m (KeyMsg ''enter'' :: 'o msg)
            = Done (m\<lparr>err_sb := Some (''invalid quantity entered: '' @ x), input := []\<rparr>, NoCmd)"
    using assms(1) by (simp add: Update_sb_def updateAddingQuantity_def)
  show "\<forall>q. parseFloat e (input m) = Inr q \<longrightarrow>
            Update_sb e m (KeyMsg ''enter'' :: 'o msg)
            = Done (m\<lparr>waste_sb := (waste_sb m)[length (waste_sb m) - 1 :=
                         (waste_sb m ! (length (waste_sb m) - 1))\<lparr>quantity := q\<rparr>],
                     inputmode_sb := addingWasteType, err_sb := None, input := []\<rparr>, NoCmd)"
    using assms(1,2) by (simp add: Update_sb_def updateAddingQuantity_def setLast_def)
  show "focusIndex n = 1 \<longrightarrow>
            Update_ti e u n (KeyMsg ''enter'' :: 'o msg)
            = Done (n\<lparr>focusIndex := 2, inputs := (inputs n)[2 := Focus (inputs n ! 2)]\<rparr>, InputCmd)"
    using assms(3,4) by (cases "inputmode_ti n") (simp_all add: Update_ti_def updateAdding_def focusAt_def)
  show "focusIndex n = 4 \<longrightarrow>
            (\<forall>x. parseFloat e (Value (inputs n ! 1)) = Inl x \<longrightarrow>
               Update_ti e u n (KeyMsg ''enter'' :: 'o msg)
               = Done (n\<lparr>err_ti := Some (''invalid quantity: '' @ x)\<rparr>, NoCmd))"
    using assms(3,4) by (cases "inputmode_ti n") (simp_all add: Update_ti_def updateAdding_def submitWasteItem_def)
qed

theorem quantity_confirm_witness:
  "inputmode_sb (quantityForm ''12.5'') = addingQuantity
   \<and> waste_sb (quantityForm ''12.5'') \<noteq> []
   \<and> inputmode_sb (quantityForm ''abc'') = addingQuantity
   \<and> waste_sb (quantityForm ''abc'') \<noteq> []
   \<and> inputmode_ti (form_ti storeUp [] addingName [''Oil'', ''abc'', [], [], []] 1) \<noteq> normal
   \<and> length (inputs (form_ti storeUp [] addingName [''Oil'', ''abc'', [], [], []] 1)) = 5
   \<and> inputmode_ti (form_ti storeUp [] addingName [''Oil'', ''abc'', [], [], []] 4) \<noteq> normal
   \<and> length (inputs (form_ti storeUp [] addingName [''Oil'', ''abc'', [], [], []] 4)) = 5
   \<and> parseFloat testEnv ''12.5'' = Inr (25 / 2)
   \<and> parseFloat testEnv ''abc'' = Inl ''invalid syntax''
   \<and> Update_sb testEnv (quantityForm ''12.5'') (KeyMsg ''enter'' :: unit msg)
      = Done (\<lparr>db_sb = storeUp, waste_sb = [item1, (newItem ''Oil'')\<lparr>quantity := 25 / 2\<rparr>],
               cursor_sb = 0, input = [], inputmode_sb = addingWasteType, err_sb = None\<rparr>, NoCmd)
   \<and> Update_sb testEnv (quantityForm ''abc'') (KeyMsg ''enter'' :: unit msg)
      = Done (\<lparr>db_sb = storeUp, waste_sb = [item1, newItem ''Oil''],
               cursor_sb = 0, input = [], inputmode_sb = addingQuantity,
               err_sb = Some ''invalid quantity entered: invalid syntax''\<rparr>, NoCmd)
   \<and> map_outcome (\<lambda>(n', c). (focusIndex n', err_ti n'))
        (Update_ti testEnv tiIgnore (form_ti storeUp [] addingName [''Oil'', ''abc'', [], [], []] 1)
           (KeyMsg ''enter'' :: unit msg))
      = Done (2, None)
   \<and> map_outcome (\<lambda>(n', c). (focusIndex n', err_ti n'))
        (Update_ti testEnv tiIgnore (form_ti storeUp [] addingName [''Oil'', ''abc'', [], [], []] 4)
           (KeyMsg ''enter'' :: unit msg))
      = Done (4, Some ''invalid quantity: invalid syntax'')"
  using quantity_confirm [of "quantityForm ''12.5''"
      "form_ti storeUp [] addingName [''Oil'', ''abc'', [], [], []] 1" testEnv tiIgnore]
    quantity_confirm [of "quantityForm ''abc''"
      "form_ti storeUp [] addingName [''Oil'', ''abc'', [], [], []] 4" testEnv tiIgnore]
  by (simp add: sb_defs ti_defs test_defs)

text \<open>Claim C2 as stated fails in the textinput variant. From the initial model, \<open>a\<close>
  and \<open>enter\<close> put the focus on the quantity field, whose text is empty and does not
  parse; the next \<open>enter\<close> moves the focus on and sets no error. The same happens with
  the text \<open>abc\<close> in the quantity field.\<close>

theorem quantity_confirm_ti_counterexample:
  "parseFloat testEnv [] = Inl ''invalid syntax''
   \<and> map_outcome (\<lambda>n'. (inputmode_ti n', focusIndex n', map Value (inputs n'), err_ti n'))
       (run_ti testEnv tiIgnore (form_ti storeUp [] normal [[], [], [], [], []] 0)
          (map KeyMsg [''a'', ''enter''] :: unit msg list))
     = Done (addingName, 1, [[], [], [], [], []], None)
   \<and> map_outcome (\<lambda>n'. (inputmode_ti n', focusIndex n', map Value (inputs n'), err_ti n'))
       (run_ti testEnv tiIgnore (form_ti storeUp [] normal [[], [], [], [], []] 0)
          (map KeyMsg [''a'', ''enter'', ''enter''] :: unit msg list))
     = Done (addingName, 2, [[], [], [], [], []], None)
   \<and> parseFloat testEnv ''abc'' = Inl ''invalid syntax''
   \<and> map_outcome (\<lambda>(n', c). (focusIndex n', err_ti n'))
        (Update_ti testEnv tiIgnore (form_ti storeUp [] addingName [''Oil'', ''abc'', [], [], []] 1)
           (KeyMsg ''enter'' :: unit msg))
      = Done (2, None)"
  by (simp add: ti_defs test_defs)

section \<open>The form: cancelling\<close>










section \<open>The form: submitting\<close>

text \<open>The last confirm of the single-buffer variant: the method is written into the
  last list element, that element is sent to the store, and on success the identifier
  is written into it. Either way the mode returns to browsing.\<close>

lemma method_confirm_sb:
  assumes "inputmode_sb m = addingMethod" and "waste_sb m \<noteq> []"
    and "w = waste_sb m ! (length (waste_sb m) - 1)"
    and "execInsert e (db_sb m) (name w) (quantity w) (wasteType w) (location w) (input m)
         = (r, d)"
  shows "Update_sb e m (KeyMsg ''enter'' :: 'o msg)
         = Done (case r of
                   Inr i \<Rightarrow>
                     m\<lparr>db_sb := d,
                       waste_sb := (waste_sb m)[length (waste_sb m) - 1 :=
                                      w\<lparr>method_w := input m, id_w := i\<rparr>],
                       inputmode_sb := normal, input := []\<rparr>
                 | Inl x \<Rightarrow>
                     m\<lparr>db_sb := d,
                       waste_sb := (waste_sb m)[length (waste_sb m) - 1 :=
                                      w\<lparr>method_w := input m\<rparr>],
                       err_sb := Some (''failed to add item: '' @ x),
                       inputmode_sb := normal, input := []\<rparr>, NoCmd)"
  using assms
  by (cases r) (simp_all add: Update_sb_def updateAddingText_def addWasteItem_sb_def setLast_def)

text \<open>The end-to-end example of the specification holds in the single-buffer variant:
  from an empty list, the keys of the example leave exactly the one item, with the
  identifier the store assigned.\<close>

lemma sb_end_to_end_example:
  "run_sb testEnv (browsing_sb storeUp [] 0) (map KeyMsg oilKeys :: unit msg list)
   = Done (browsing_sb (storeUp\<lparr>rows := [oil 1],
              calls := [InsertCall ''Oil'' (16 / 5) ''Liquid'' ''Bay1'' ''Incinerate'']\<rparr>)
            [oil 1] 0)"
  by (simp add: sb_defs test_defs)

text \<open>In the textinput variant the same keys never complete the form: \<open>Update\<close> hands
  every key message to \<open>updateNormal\<close> or \<open>updateAdding\<close>, which ignores keys other
  than \<open>enter\<close> and \<open>esc\<close>, so the fields stay empty and the submission stops at the
  quantity that does not parse.\<close>

lemma ti_end_to_end_example:
  "initialModel_ti testEnv storeUp
   = Inr (form_ti storeUp [] normal [[], [], [], [], []] 0)
   \<and> map_outcome (\<lambda>n'. (waste_ti n', inputmode_ti n', focusIndex n', map Value (inputs n'),
                         err_ti n', db_ti n'))
       (run_ti testEnv tiIgnore (form_ti storeUp [] normal [[], [], [], [], []] 0)
          (map KeyMsg oilKeys :: unit msg list))
     = Done ([], addingName, 4, [[], [], [], [], []],
             Some ''invalid quantity: invalid syntax'', storeUp)"
  by (simp add: ti_defs test_defs eval_nat_numeral)

text \<open>
  Claim C1 at a failing input. In the textinput variant the form holds the five texts
  of the example, the focus is on the last field and the store is up. With the list
  \<open>[item1, item2]\<close> the confirm inserts the row and returns to browsing with the fields
  cleared and the cursor unchanged, but the new item has replaced \<open>item2\<close> instead of
  being appended; with the empty list the same confirm panics.
\<close>

theorem submit_replaces_last_item_example:
  "map_outcome (\<lambda>(m', c). (waste_ti m', inputmode_ti m', map Value (inputs m'), cursor_ti m'))
     (Update_ti testEnv tiIgnore
        (form_ti storeUp [item1, item2] addingName
           [''Oil'', ''3.2'', ''Liquid'', ''Bay1'', ''Incinerate''] 4)
        (KeyMsg ''enter'' :: unit msg))
   = Done ([item1, oil 1], normal, [[], [], [], [], []], 0)
   \<and> Update_ti testEnv tiIgnore
        (form_ti storeUp [] addingName [''Oil'', ''3.2'', ''Liquid'', ''Bay1'', ''Incinerate''] 4)
        (KeyMsg ''enter'' :: unit msg)
     = Panic"
  by (simp add: ti_defs test_defs)

section \<open>The form: a failing insert\<close>

text \<open>In the textinput variant a failed insert sets the error and leaves mode, focus and
  field texts as they are.\<close>

lemma insert_failure_keeps_form_ti:
  assumes "inputmode_ti n \<noteq> normal" and "length (inputs n) = 5" and "focusIndex n = 4"
    and "parseFloat e (Value (inputs n ! 1)) = Inr q"
    and "execInsert e (db_ti n) (Value (inputs n ! 0)) q (Value (inputs n ! 2))
           (Value (inputs n ! 3)) (Value (inputs n ! 4)) = (Inl x, d)"
  shows "Update_ti e u n (KeyMsg ''enter'' :: 'o msg)
         = Done (n\<lparr>db_ti := d, err_ti := Some (''failed to add item: '' @ x)\<rparr>, NoCmd)"
  using assms
  by (cases "inputmode_ti n")
     (simp_all add: Update_ti_def updateAdding_def submitWasteItem_def addWasteItem_ti_def)

text \<open>
  Claim C5 at a failing input. In the single-buffer variant, with the store down, the
  keys of the end-to-end example end in browsing mode with an empty buffer: the form is
  left, the item that was not stored stays in the list with identifier 0, and the error
  is set.
\<close>

theorem insert_failure_leaves_form_example:
  "run_sb testEnv (browsing_sb storeDown [item1] 0) (map KeyMsg oilKeys :: unit msg list)
   = Done \<lparr>db_sb = storeDown\<lparr>calls :=
                      [InsertCall ''Oil'' (16 / 5) ''Liquid'' ''Bay1'' ''Incinerate'']\<rparr>,
           waste_sb = [item1, oil 0], cursor_sb = 0, input = [], inputmode_sb = normal,
           err_sb = Some ''failed to add item: database is locked''\<rparr>"
  by (simp add: sb_defs test_defs)

section \<open>What changes the item list\<close>

lemma list_change_normal_sb:
  assumes "updateNormal_sb e m k = Done (m', c)" and "waste_sb m' \<noteq> waste_sb m"
  shows "k = ''d''
         \<and> execDelete e (db_sb m) (id_w (waste_sb m ! nat (cursor_sb m))) = (None, db_sb m')
         \<and> waste_sb m' = take (nat (cursor_sb m)) (waste_sb m)
                          @ drop (nat (cursor_sb m) + 1) (waste_sb m)"
  using assms
  by (simp add: updateNormal_sb_def deleteWasteItem_sb_def removeAt_def Let_def
        split: if_splits option.splits prod.splits) (clarsimp+)

lemma list_change_text_sb:
  assumes "updateAddingText e m k = Done (m', c)" and "waste_sb m' \<noteq> waste_sb m"
  shows "k = ''enter''
         \<and> (case inputmode_sb m of
               addingName \<Rightarrow> waste_sb m' = waste_sb m @ [newItem (input m)] \<and> db_sb m' = db_sb m
             | addingMethod \<Rightarrow> length (waste_sb m') = length (waste_sb m)
                               \<and> butlast (waste_sb m') = butlast (waste_sb m)
             | _ \<Rightarrow> length (waste_sb m') = length (waste_sb m)
                    \<and> butlast (waste_sb m') = butlast (waste_sb m) \<and> db_sb m' = db_sb m)"
  using assms
  by (cases "inputmode_sb m")
     (auto simp add: updateAddingText_def addWasteItem_sb_def setLast_def butlast_list_update
        split: if_splits sum.splits prod.splits)

lemma list_change_quantity_sb:
  assumes "updateAddingQuantity e m k = Done (m', c)" and "waste_sb m' \<noteq> waste_sb m"
  shows "k = ''enter'' \<and> length (waste_sb m') = length (waste_sb m)
         \<and> butlast (waste_sb m') = butlast (waste_sb m) \<and> db_sb m' = db_sb m"
  using assms
  by (auto simp add: updateAddingQuantity_def setLast_def butlast_list_update
        split: if_splits sum.splits)

lemma list_change_sb:
  assumes "Update_sb e m x = Done (m', c)" and "waste_sb m' \<noteq> waste_sb m"
  shows "(x = KeyMsg ''d'' \<and> inputmode_sb m = normal
            \<and> execDelete e (db_sb m) (id_w (waste_sb m ! nat (cursor_sb m))) = (None, db_sb m')
            \<and> waste_sb m' = take (nat (cursor_sb m)) (waste_sb m)
                             @ drop (nat (cursor_sb m) + 1) (waste_sb m))
       \<or> (x = KeyMsg ''enter'' \<and> inputmode_sb m = addingName
            \<and> waste_sb m' = waste_sb m @ [newItem (input m)] \<and> db_sb m' = db_sb m)
       \<or> (x = KeyMsg ''enter''
            \<and> inputmode_sb m \<in> {addingQuantity, addingWasteType, addingLocation}
            \<and> length (waste_sb m') = length (waste_sb m)
            \<and> butlast (waste_sb m') = butlast (waste_sb m) \<and> db_sb m' = db_sb m)
       \<or> (x = KeyMsg ''enter'' \<and> inputmode_sb m = addingMethod
            \<and> length (waste_sb m') = length (waste_sb m)
            \<and> butlast (waste_sb m') = butlast (waste_sb m))"
proof (cases x)
  case (OtherMsg y)
  then show ?thesis using assms by (simp add: Update_sb_def)
next
  case (KeyMsg k)
  show ?thesis
  proof (cases "inputmode_sb m")
    case normal
    then have "updateNormal_sb e m k = Done (m', c)"
      using assms(1) KeyMsg by (simp add: Update_sb_def)
    from list_change_normal_sb [OF this assms(2)] show ?thesis
      using KeyMsg normal by simp
  next
    case addingQuantity
    then have "updateAddingQuantity e m k = Done (m', c)"
      using assms(1) KeyMsg by (simp add: Update_sb_def)
    from list_change_quantity_sb [OF this assms(2)] show ?thesis
      using KeyMsg addingQuantity by simp
  next
    case addingName
    then have "updateAddingText e m k = Done (m', c)"
      using assms(1) KeyMsg by (simp add: Update_sb_def)
    from list_change_text_sb [OF this assms(2)] show ?thesis
      using KeyMsg addingName by simp
  next
    case addingWasteType
    then have "updateAddingText e m k = Done (m', c)"
      using assms(1) KeyMsg by (simp add: Update_sb_def)
    from list_change_text_sb [OF this assms(2)] show ?thesis
      using KeyMsg addingWasteType by simp
  next
    case addingLocation
    then have "updateAddingText e m k = Done (m', c)"
      using assms(1) KeyMsg by (simp add: Update_sb_def)
    from list_change_text_sb [OF this assms(2)] show ?thesis
      using KeyMsg addingLocation by simp
  next
    case addingMethod
    then have "updateAddingText e m k = Done (m', c)"
      using assms(1) KeyMsg by (simp add: Update_sb_def)
    from list_change_text_sb [OF this assms(2)] show ?thesis
      using KeyMsg addingMethod by simp
  qed
qed

lemma list_change_normal_ti:
  assumes "updateNormal_ti e n k = Done (n', c)" and "waste_ti n' \<noteq> waste_ti n"
  shows "k = ''d''
         \<and> execDelete e (db_ti n) (id_w (waste_ti n ! nat (cursor_ti n))) = (None, db_ti n')
         \<and> waste_ti n' = take (nat (cursor_ti n)) (waste_ti n)
                          @ drop (nat (cursor_ti n) + 1) (waste_ti n)"
  using assms
  by (simp add: updateNormal_ti_def deleteWasteItem_ti_def removeAt_def Let_def focusAt_def
        split: if_splits option.splits prod.splits) (clarsimp+)

lemma list_change_adding_ti:
  assumes "updateAdding e n k = Done (n', c)" and "waste_ti n' \<noteq> waste_ti n"
  shows "k = ''enter''
         \<and> (\<exists>q i. parseFloat e (Value (inputs n ! 1)) = Inr q
               \<and> execInsert e (db_ti n) (Value (inputs n ! 0)) q (Value (inputs n ! 2))
                    (Value (inputs n ! 3)) (Value (inputs n ! 4)) = (Inr i, db_ti n')
               \<and> waste_ti n' = (waste_ti n)[length (waste_ti n) - 1 :=
                    \<lparr>id_w = i, name = Value (inputs n ! 0), quantity = q,
                     wasteType = Value (inputs n ! 2), location = Value (inputs n ! 3),
                     method_w = Value (inputs n ! 4)\<rparr>])"
  using assms
  by (simp add: updateAdding_def submitWasteItem_def addWasteItem_ti_def setLast_def focusAt_def
        split: if_splits sum.splits prod.splits) (clarsimp+)

lemma list_change_ti:
  assumes "Update_ti e u n y = Done (n', c)" and "waste_ti n' \<noteq> waste_ti n"
  shows "(y = KeyMsg ''d'' \<and> inputmode_ti n = normal
            \<and> execDelete e (db_ti n) (id_w (waste_ti n ! nat (cursor_ti n))) = (None, db_ti n')
            \<and> waste_ti n' = take (nat (cursor_ti n)) (waste_ti n)
                             @ drop (nat (cursor_ti n) + 1) (waste_ti n))
       \<or> (y = KeyMsg ''enter'' \<and> inputmode_ti n \<noteq> normal
            \<and> (\<exists>q i. parseFloat e (Value (inputs n ! 1)) = Inr q
                  \<and> execInsert e (db_ti n) (Value (inputs n ! 0)) q (Value (inputs n ! 2))
                       (Value (inputs n ! 3)) (Value (inputs n ! 4)) = (Inr i, db_ti n')
                  \<and> waste_ti n' = (waste_ti n)[length (waste_ti n) - 1 :=
                       \<lparr>id_w = i, name = Value (inputs n ! 0), quantity = q,
                        wasteType = Value (inputs n ! 2), location = Value (inputs n ! 3),
                        method_w = Value (inputs n ! 4)\<rparr>]))"
proof (cases y)
  case (OtherMsg z)
  then show ?thesis using assms by (simp add: Update_ti_def updateInputs_def) (clarsimp+)
next
  case (KeyMsg k)
  show ?thesis
  proof (cases "inputmode_ti n = normal")
    case True
    then have "updateNormal_ti e n k = Done (n', c)"
      using assms(1) KeyMsg by (simp add: Update_ti_def)
    from list_change_normal_ti [OF this assms(2)] show ?thesis
      using KeyMsg True by simp
  next
    case False
    then have "updateAdding e n k = Done (n', c)"
      using assms(1) KeyMsg by (cases "inputmode_ti n") (simp_all add: Update_ti_def)
    from list_change_adding_ti [OF this assms(2)] show ?thesis
      using KeyMsg False by simp
  qed
qed

text \<open>
  Claim C7, as the code has it. After the initial load, a step changes the item list only
  as follows. In the textinput variant: a delete the store accepted removes the item at
  the cursor, and a submission the store accepted writes the new item over the last
  element. In the single-buffer variant: a delete the store accepted removes the item at
  the cursor; confirming the name appends a new item with the store untouched; confirming
  quantity, type or location rewrites the last element with the store untouched; and
  confirming the method rewrites the last element whatever the store then answers.
\<close>

theorem item_list_changes:
  assumes "Update_sb e m x = Done (m', c)" and "waste_sb m' \<noteq> waste_sb m"
    and "Update_ti e u n y = Done (n', c')" and "waste_ti n' \<noteq> waste_ti n"
  shows "((x = KeyMsg ''d'' \<and> inputmode_sb m = normal
            \<and> execDelete e (db_sb m) (id_w (waste_sb m ! nat (cursor_sb m))) = (None, db_sb m')
            \<and> waste_sb m' = take (nat (cursor_sb m)) (waste_sb m)
                             @ drop (nat (cursor_sb m) + 1) (waste_sb m))
         \<or> (x = KeyMsg ''enter'' \<and> inputmode_sb m = addingName
            \<and> waste_sb m' = waste_sb m @ [newItem (input m)] \<and> db_sb m' = db_sb m)
         \<or> (x = KeyMsg ''enter''
            \<and> inputmode_sb m \<in> {addingQuantity, addingWasteType, addingLocation}
            \<and> length (waste_sb m') = length (waste_sb m)
            \<and> butlast (waste_sb m') = butlast (waste_sb m) \<and> db_sb m' = db_sb m)
         \<or> (x = KeyMsg ''enter'' \<and> inputmode_sb m = addingMethod
            \<and> length (waste_sb m') = length (waste_sb m)
            \<and> butlast (waste_sb m') = butlast (waste_sb m)))
       \<and> ((y = KeyMsg ''d'' \<and> inputmode_ti n = normal
            \<and> execDelete e (db_ti n) (id_w (waste_ti n ! nat (cursor_ti n))) = (None, db_ti n')
            \<and> waste_ti n' = take (nat (cursor_ti n)) (waste_ti n)
                             @ drop (nat (cursor_ti n) + 1) (waste_ti n))
         \<or> (y = KeyMsg ''enter'' \<and> inputmode_ti n \<noteq> normal
            \<and> (\<exists>q i. parseFloat e (Value (inputs n ! 1)) = Inr q
                  \<and> execInsert e (db_ti n) (Value (inputs n ! 0)) q (Value (inputs n ! 2))
                       (Value (inputs n ! 3)) (Value (inputs n ! 4)) = (Inr i, db_ti n')
                  \<and> waste_ti n' = (waste_ti n)[length (waste_ti n) - 1 :=
                       \<lparr>id_w = i, name = Value (inputs n ! 0), quantity = q,
                        wasteType = Value (inputs n ! 2), location = Value (inputs n ! 3),
                        method_w = Value (inputs n ! 4)\<rparr>])))"
  by (rule conjI [OF list_change_sb [OF assms(1,2)] list_change_ti [OF assms(3,4)]])

text \<open>Confirming a name in the single-buffer variant, and a delete the store accepts in
  the textinput variant.\<close>

theorem item_list_changes_witness:
  "Update_sb testEnv (nameForm ''Oil'') (KeyMsg ''enter'' :: unit msg)
   = Done (\<lparr>db_sb = storeUp, waste_sb = [newItem ''Oil''], cursor_sb = 0, input = [],
            inputmode_sb = addingQuantity, err_sb = None\<rparr>, NoCmd)
   \<and> waste_sb \<lparr>db_sb = storeUp, waste_sb = [newItem ''Oil''], cursor_sb = 0, input = [],
               inputmode_sb = addingQuantity, err_sb = None\<rparr> \<noteq> waste_sb (nameForm ''Oil'')
   \<and> Update_ti testEnv tiIgnore (form_ti storeUp [item1, item2] normal [[], [], [], [], []] 0)
        (KeyMsg ''d'' :: unit msg)
     = Done (form_ti (storeUp\<lparr>calls := [DeleteCall 7]\<rparr>) [item2] normal [[], [], [], [], []] 0,
             NoCmd)
   \<and> waste_ti (form_ti (storeUp\<lparr>calls := [DeleteCall 7]\<rparr>) [item2] normal [[], [], [], [], []] 0)
       \<noteq> waste_ti (form_ti storeUp [item1, item2] normal [[], [], [], [], []] 0)
   \<and> inputmode_sb (nameForm ''Oil'') = addingName
   \<and> db_sb \<lparr>db_sb = storeUp, waste_sb = [newItem ''Oil''], cursor_sb = 0, input = [],
            inputmode_sb = addingQuantity, err_sb = None\<rparr> = db_sb (nameForm ''Oil'')
   \<and> execDelete testEnv storeUp 7 = (None, storeUp\<lparr>calls := [DeleteCall 7]\<rparr>)"
  using item_list_changes [of testEnv "nameForm ''Oil''" "KeyMsg ''enter'' :: unit msg"
      "\<lparr>db_sb = storeUp, waste_sb = [newItem ''Oil''], cursor_sb = 0, input = [],
        inputmode_sb = addingQuantity, err_sb = None\<rparr>" NoCmd
      tiIgnore "form_ti storeUp [item1, item2] normal [[], [], [], [], []] 0"
      "KeyMsg ''d'' :: unit msg"
      "form_ti (storeUp\<lparr>calls := [DeleteCall 7]\<rparr>) [item2] normal [[], [], [], [], []] 0" NoCmd]
  by (simp add: sb_defs ti_defs test_defs)

text \<open>Claim C7 as stated fails in the single-buffer variant: from browsing an empty
  list, typing a name and confirming it puts a new item into the list although the store
  has not been called.\<close>

theorem list_grows_before_insert_counterexample:
  "run_sb testEnv (browsing_sb storeUp [] 0)
     (map KeyMsg [''a'', ''O'', ''i'', ''l'', ''enter''] :: unit msg list)
   = Done \<lparr>db_sb = storeUp, waste_sb = [newItem ''Oil''], cursor_sb = 0, input = [],
           inputmode_sb = addingQuantity, err_sb = None\<rparr>
   \<and> waste_sb (browsing_sb storeUp [] 0) = []
   \<and> db_sb (browsing_sb storeUp [] 0) = storeUp
   \<and> calls storeUp = []"
  by (simp add: sb_defs test_defs)

section \<open>Validity of the cursor\<close>

text \<open>In the textinput variant the list never grows, a delete re-clamps the cursor, and
  nothing else moves it: a cursor that is valid whenever the list is non-empty stays so
  along every run from the initial model.\<close>

lemma cursor_valid_normal_ti:
  assumes "updateNormal_ti e n k = Done (n', c)"
    and "waste_ti n \<noteq> [] \<longrightarrow> 0 \<le> cursor_ti n \<and> cursor_ti n < int (length (waste_ti n))"
  shows "waste_ti n' \<noteq> [] \<longrightarrow> 0 \<le> cursor_ti n' \<and> cursor_ti n' < int (length (waste_ti n'))"
  using assms
  by (simp add: updateNormal_ti_def deleteWasteItem_ti_def removeAt_def Let_def focusAt_def
        split: if_splits option.splits prod.splits) (clarsimp+)

lemma cursor_valid_adding_ti:
  assumes "updateAdding e n k = Done (n', c)"
    and "waste_ti n \<noteq> [] \<longrightarrow> 0 \<le> cursor_ti n \<and> cursor_ti n < int (length (waste_ti n))"
  shows "waste_ti n' \<noteq> [] \<longrightarrow> 0 \<le> cursor_ti n' \<and> cursor_ti n' < int (length (waste_ti n'))"
  using assms
  by (simp add: updateAdding_def submitWasteItem_def addWasteItem_ti_def setLast_def focusAt_def
        split: if_splits sum.splits prod.splits) (clarsimp+)

lemma cursor_valid_step_ti:
  assumes "Update_ti e u n y = Done (n', c)"
    and "waste_ti n \<noteq> [] \<longrightarrow> 0 \<le> cursor_ti n \<and> cursor_ti n < int (length (waste_ti n))"
  shows "waste_ti n' \<noteq> [] \<longrightarrow> 0 \<le> cursor_ti n' \<and> cursor_ti n' < int (length (waste_ti n'))"
proof (cases y)
  case (OtherMsg z)
  then show ?thesis using assms by (simp add: Update_ti_def updateInputs_def) (clarsimp+)
next
  case (KeyMsg k)
  show ?thesis
  proof (cases "inputmode_ti n = normal")
    case True
    then have "updateNormal_ti e n k = Done (n', c)"
      using assms(1) KeyMsg by (simp add: Update_ti_def)
    from cursor_valid_normal_ti [OF this assms(2)] show ?thesis .
  next
    case False
    then have "updateAdding e n k = Done (n', c)"
      using assms(1) KeyMsg by (cases "inputmode_ti n") (simp_all add: Update_ti_def)
    from cursor_valid_adding_ti [OF this assms(2)] show ?thesis .
  qed
qed

lemma cursor_valid_run_ti:
  assumes "run_ti e u n xs = Done n'"
    and "waste_ti n \<noteq> [] \<longrightarrow> 0 \<le> cursor_ti n \<and> cursor_ti n < int (length (waste_ti n))"
  shows "waste_ti n' \<noteq> [] \<longrightarrow> 0 \<le> cursor_ti n' \<and> cursor_ti n' < int (length (waste_ti n'))"
  using assms
proof (induction xs arbitrary: n)
  case Nil
  then show ?case by simp
next
  case (Cons x xs)
  from Cons.prems(1) obtain n1 c where s: "Update_ti e u n x = Done (n1, c)"
    by (cases "Update_ti e u n x") auto
  have v: "waste_ti n1 \<noteq> [] \<longrightarrow> 0 \<le> cursor_ti n1 \<and> cursor_ti n1 < int (length (waste_ti n1))"
    by (rule cursor_valid_step_ti [OF s Cons.prems(2)])
  show ?case
  proof (cases "c = Quit")
    case True
    then have "n' = n1" using Cons.prems(1) s by simp
    then show ?thesis using v by simp
  next
    case False
    then have "run_ti e u n1 xs = Done n'" using Cons.prems(1) s by simp
    from Cons.IH [OF this v] show ?thesis .
  qed
qed

lemma cursor_valid_reachable_ti:
  assumes "initialModel_ti e d = Inr n" and "run_ti e u n xs = Done n'"
  shows "waste_ti n' \<noteq> [] \<longrightarrow> 0 \<le> cursor_ti n' \<and> cursor_ti n' < int (length (waste_ti n'))"
proof (rule cursor_valid_run_ti [OF assms(2)])
  show "waste_ti n \<noteq> [] \<longrightarrow> 0 \<le> cursor_ti n \<and> cursor_ti n < int (length (waste_ti n))"
    using assms(1) by (auto simp add: initialModel_ti_def split: sum.splits)
qed

text \<open>The single-buffer variant keeps a weaker bound along every run from the initial
  model: the cursor lies between -1 and \<open>max 0 (len - 1)\<close>. The lower end is reached when
  the last item is deleted, and an item appended afterwards does not move it back.\<close>

lemma normal_step_shape_sb:
  assumes "updateNormal_sb e m k = Done (m', c)"
  shows "(length (waste_sb m') = length (waste_sb m)
            \<and> (cursor_sb m' = cursor_sb m
                \<or> (0 < cursor_sb m \<and> cursor_sb m' = cursor_sb m - 1)
                \<or> (cursor_sb m < int (length (waste_sb m)) - 1
                    \<and> cursor_sb m' = cursor_sb m + 1)))
       \<or> (0 \<le> cursor_sb m \<and> cursor_sb m < int (length (waste_sb m))
            \<and> int (length (waste_sb m')) = int (length (waste_sb m)) - 1
            \<and> (cursor_sb m' = cursor_sb m \<and> cursor_sb m < int (length (waste_sb m)) - 1
                \<or> cursor_sb m' = int (length (waste_sb m)) - 2))"
  using assms
  by (simp add: updateNormal_sb_def deleteWasteItem_sb_def removeAt_def Let_def min_def
        split: if_splits option.splits prod.splits) (clarsimp+)

lemma cursor_bounds_normal_sb:
  assumes "updateNormal_sb e m k = Done (m', c)"
    and "- 1 \<le> cursor_sb m" and "cursor_sb m \<le> max 0 (int (length (waste_sb m)) - 1)"
  shows "- 1 \<le> cursor_sb m' \<and> cursor_sb m' \<le> max 0 (int (length (waste_sb m')) - 1)"
  using normal_step_shape_sb [OF assms(1)] assms(2,3) by linarith

lemma cursor_bounds_text_sb:
  assumes "updateAddingText e m k = Done (m', c)"
    and "- 1 \<le> cursor_sb m" and "cursor_sb m \<le> max 0 (int (length (waste_sb m)) - 1)"
  shows "- 1 \<le> cursor_sb m' \<and> cursor_sb m' \<le> max 0 (int (length (waste_sb m')) - 1)"
  using assms
  by (cases "inputmode_sb m")
     (auto simp add: updateAddingText_def addWasteItem_sb_def setLast_def
        split: if_splits sum.splits prod.splits)

lemma cursor_bounds_quantity_sb:
  assumes "updateAddingQuantity e m k = Done (m', c)"
    and "- 1 \<le> cursor_sb m" and "cursor_sb m \<le> max 0 (int (length (waste_sb m)) - 1)"
  shows "- 1 \<le> cursor_sb m' \<and> cursor_sb m' \<le> max 0 (int (length (waste_sb m')) - 1)"
  using assms
  by (auto simp add: updateAddingQuantity_def setLast_def split: if_splits sum.splits)

lemma cursor_bounds_step_sb:
  assumes "Update_sb e m x = Done (m', c)"
    and "- 1 \<le> cursor_sb m" and "cursor_sb m \<le> max 0 (int (length (waste_sb m)) - 1)"
  shows "- 1 \<le> cursor_sb m' \<and> cursor_sb m' \<le> max 0 (int (length (waste_sb m')) - 1)"
proof (cases x)
  case (OtherMsg y)
  then show ?thesis using assms by (auto simp add: Update_sb_def)
next
  case (KeyMsg k)
  show ?thesis
  proof (cases "inputmode_sb m")
    case normal
    then have "updateNormal_sb e m k = Done (m', c)"
      using assms(1) KeyMsg by (simp add: Update_sb_def)
    from cursor_bounds_normal_sb [OF this assms(2,3)] show ?thesis .
  next
    case addingQuantity
    then have "updateAddingQuantity e m k = Done (m', c)"
      using assms(1) KeyMsg by (simp add: Update_sb_def)
    from cursor_bounds_quantity_sb [OF this assms(2,3)] show ?thesis .
  next
    case addingName
    then have "updateAddingText e m k = Done (m', c)"
      using assms(1) KeyMsg by (simp add: Update_sb_def)
    from cursor_bounds_text_sb [OF this assms(2,3)] show ?thesis .
  next
    case addingWasteType
    then have "updateAddingText e m k = Done (m', c)"
      using assms(1) KeyMsg by (simp add: Update_sb_def)
    from cursor_bounds_text_sb [OF this assms(2,3)] show ?thesis .
  next
    case addingLocation
    then have "updateAddingText e m k = Done (m', c)"
      using assms(1) KeyMsg by (simp add: Update_sb_def)
    from cursor_bounds_text_sb [OF this assms(2,3)] show ?thesis .
  next
    case addingMethod
    then have "updateAddingText e m k = Done (m', c)"
      using assms(1) KeyMsg by (simp add: Update_sb_def)
    from cursor_bounds_text_sb [OF this assms(2,3)] show ?thesis .
  qed
qed

lemma cursor_bounds_run_sb:
  assumes "run_sb e m xs = Done m'"
    and "- 1 \<le> cursor_sb m" and "cursor_sb m \<le> max 0 (int (length (waste_sb m)) - 1)"
  shows "- 1 \<le> cursor_sb m' \<and> cursor_sb m' \<le> max 0 (int (length (waste_sb m')) - 1)"
  using assms
proof (induction xs arbitrary: m)
  case Nil
  then show ?case by simp
next
  case (Cons x xs)
  from Cons.prems(1) obtain m1 c where s: "Update_sb e m x = Done (m1, c)"
    by (cases "Update_sb e m x") auto
  have v: "- 1 \<le> cursor_sb m1 \<and> cursor_sb m1 \<le> max 0 (int (length (waste_sb m1)) - 1)"
    by (rule cursor_bounds_step_sb [OF s Cons.prems(2,3)])
  show ?case
  proof (cases "c = Quit")
    case True
    then have "m' = m1" using Cons.prems(1) s by simp
    then show ?thesis using v by simp
  next
    case False
    then have "run_sb e m1 xs = Done m'" using Cons.prems(1) s by simp
    from Cons.IH [OF this] v show ?thesis by blast
  qed
qed

lemma cursor_bounds_reachable_sb:
  assumes "initialModel_sb e d = Inr m" and "run_sb e m xs = Done m'"
  shows "- 1 \<le> cursor_sb m' \<and> cursor_sb m' \<le> max 0 (int (length (waste_sb m')) - 1)"
proof (rule cursor_bounds_run_sb [OF assms(2)])
  show "- 1 \<le> cursor_sb m" and "cursor_sb m \<le> max 0 (int (length (waste_sb m)) - 1)"
    using assms(1) by (auto simp add: initialModel_sb_def split: sum.splits)
qed

text \<open>
  Claim C8 at a failing input. In the single-buffer variant, start from the model loaded
  from a store with one row. Deleting that row leaves the empty list with cursor -1;
  entering form mode and confirming a name appends an item, and the list is non-empty
  with cursor -1. After cancelling, the delete key reads the list at index -1 and panics.
\<close>

theorem cursor_invalid_after_delete_and_add_example:
  "initialModel_sb testEnv (storeUp\<lparr>rows := [item1]\<rparr>)
   = Inr (browsing_sb (storeUp\<lparr>rows := [item1]\<rparr>) [item1] 0)
   \<and> run_sb testEnv (browsing_sb (storeUp\<lparr>rows := [item1]\<rparr>) [item1] 0)
        (map KeyMsg [''d'', ''a'', ''x'', ''enter''] :: unit msg list)
     = Done \<lparr>db_sb = storeUp\<lparr>calls := [DeleteCall 7]\<rparr>, waste_sb = [newItem ''x''],
             cursor_sb = - 1, input = [], inputmode_sb = addingQuantity, err_sb = None\<rparr>
   \<and> run_sb testEnv (browsing_sb (storeUp\<lparr>rows := [item1]\<rparr>) [item1] 0)
        (map KeyMsg [''d'', ''a'', ''x'', ''enter'', ''esc'', ''d''] :: unit msg list)
     = Panic"
  by (simp add: sb_defs test_defs)

section \<open>The last-error slot\<close>

lemma err_normal_sb:
  assumes "updateNormal_sb e m k = Done (m', c)"
  shows "err_sb m' =
     (if k = ''d'' \<and> waste_sb m \<noteq> [] then
        (case fst (execDelete e (db_sb m) (id_w (waste_sb m ! nat (cursor_sb m)))) of
           Some t \<Rightarrow> Some (''failed to delete item: '' @ t)
         | None \<Rightarrow> err_sb m)
      else err_sb m)"
  using assms
  by (simp add: updateNormal_sb_def deleteWasteItem_sb_def Let_def
        split: if_splits option.splits prod.splits) (clarsimp+)

lemma err_quantity_sb:
  assumes "updateAddingQuantity e m k = Done (m', c)"
  shows "err_sb m' =
     (if k = ''enter'' then
        (case parseFloat e (input m) of
           Inl t \<Rightarrow> Some (''invalid quantity entered: '' @ t)
         | Inr q \<Rightarrow> None)
      else err_sb m)"
  using assms
  by (auto simp add: updateAddingQuantity_def setLast_def split: if_splits sum.splits)

lemma err_text_sb:
  assumes "updateAddingText e m k = Done (m', c)"
  shows "err_sb m' =
     (if k = ''enter'' \<and> inputmode_sb m = addingMethod then
        (case fst (execInsert e (db_sb m)
                     (name (waste_sb m ! (length (waste_sb m) - 1)))
                     (quantity (waste_sb m ! (length (waste_sb m) - 1)))
                     (wasteType (waste_sb m ! (length (waste_sb m) - 1)))
                     (location (waste_sb m ! (length (waste_sb m) - 1)))
                     (input m)) of
           Inl t \<Rightarrow> Some (''failed to add item: '' @ t)
         | Inr i \<Rightarrow> err_sb m)
      else err_sb m)"
  using assms
  by (cases "inputmode_sb m")
     (auto simp add: updateAddingText_def addWasteItem_sb_def setLast_def
        split: if_splits sum.splits prod.splits)

lemma err_step_sb:
  assumes "Update_sb e m x = Done (m', c)"
  shows "err_sb m' =
     (if x = KeyMsg ''d'' \<and> inputmode_sb m = normal \<and> waste_sb m \<noteq> [] then
        (case fst (execDelete e (db_sb m) (id_w (waste_sb m ! nat (cursor_sb m)))) of
           Some t \<Rightarrow> Some (''failed to delete item: '' @ t)
         | None \<Rightarrow> err_sb m)
      else if x = KeyMsg ''enter'' \<and> inputmode_sb m = addingQuantity then
        (case parseFloat e (input m) of
           Inl t \<Rightarrow> Some (''invalid quantity entered: '' @ t)
         | Inr q \<Rightarrow> None)
      else if x = KeyMsg ''enter'' \<and> inputmode_sb m = addingMethod then
        (case fst (execInsert e (db_sb m)
                     (name (waste_sb m ! (length (waste_sb m) - 1)))
                     (quantity (waste_sb m ! (length (waste_sb m) - 1)))
                     (wasteType (waste_sb m ! (length (waste_sb m) - 1)))
                     (location (waste_sb m ! (length (waste_sb m) - 1)))
                     (input m)) of
           Inl t \<Rightarrow> Some (''failed to add item: '' @ t)
         | Inr i \<Rightarrow> err_sb m)
      else err_sb m)"
proof (cases x)
  case (OtherMsg y)
  then show ?thesis using assms by (auto simp add: Update_sb_def)
next
  case (KeyMsg k)
  show ?thesis
  proof (cases "inputmode_sb m")
    case normal
    then have "updateNormal_sb e m k = Done (m', c)"
      using assms KeyMsg by (simp add: Update_sb_def)
    from err_normal_sb [OF this] show ?thesis using KeyMsg normal by simp
  next
    case addingQuantity
    then have "updateAddingQuantity e m k = Done (m', c)"
      using assms KeyMsg by (simp add: Update_sb_def)
    from err_quantity_sb [OF this] show ?thesis using KeyMsg addingQuantity by simp
  next
    case addingName
    then have "updateAddingText e m k = Done (m', c)"
      using assms KeyMsg by (simp add: Update_sb_def)
    from err_text_sb [OF this] show ?thesis using KeyMsg addingName by simp
  next
    case addingWasteType
    then have "updateAddingText e m k = Done (m', c)"
      using assms KeyMsg by (simp add: Update_sb_def)
    from err_text_sb [OF this] show ?thesis using KeyMsg addingWasteType by simp
  next
    case addingLocation
    then have "updateAddingText e m k = Done (m', c)"
      using assms KeyMsg by (simp add: Update_sb_def)
    from err_text_sb [OF this] show ?thesis using KeyMsg addingLocation by simp
  next
    case addingMethod
    then have "updateAddingText e m k = Done (m', c)"
      using assms KeyMsg by (simp add: Update_sb_def)
    from err_text_sb [OF this] show ?thesis using KeyMsg addingMethod by simp
  qed
qed

lemma err_normal_ti:
  assumes "updateNormal_ti e n k = Done (n', c)"
  shows "err_ti n' =
     (if k = ''d'' \<and> waste_ti n \<noteq> [] then
        (case fst (execDelete e (db_ti n) (id_w (waste_ti n ! nat (cursor_ti n)))) of
           Some t \<Rightarrow> Some (''failed to delete item: '' @ t)
         | None \<Rightarrow> err_ti n)
      else err_ti n)"
  using assms
  by (simp add: updateNormal_ti_def deleteWasteItem_ti_def Let_def focusAt_def
        split: if_splits option.splits prod.splits) (clarsimp+)

lemma err_adding_ti:
  assumes "updateAdding e n k = Done (n', c)"
  shows "err_ti n' =
     (if k = ''enter'' \<and> \<not> focusIndex n < int (length (inputs n)) - 1 then
        (case parseFloat e (Value (inputs n ! 1)) of
           Inl t \<Rightarrow> Some (''invalid quantity: '' @ t)
         | Inr q \<Rightarrow>
             (case fst (execInsert e (db_ti n) (Value (inputs n ! 0)) q (Value (inputs n ! 2))
                          (Value (inputs n ! 3)) (Value (inputs n ! 4))) of
                Inl t \<Rightarrow> Some (''failed to add item: '' @ t)
              | Inr i \<Rightarrow> err_ti n))
      else err_ti n)"
proof (cases "k = ''enter'' \<and> \<not> focusIndex n < int (length (inputs n)) - 1")
  case False
  then show ?thesis using assms
    by (simp add: updateAdding_def focusAt_def split: if_splits) (clarsimp+)
next
  case True
  then have s: "submitWasteItem e n = Done (n', c)"
    using assms by (simp add: updateAdding_def)
  show ?thesis
  proof (cases "parseFloat e (Value (inputs n ! 1))")
    case (Inl t)
    then show ?thesis using s True
      by (simp add: submitWasteItem_def split: if_splits) (clarsimp+)
  next
    case (Inr q)
    obtain r d where x: "execInsert e (db_ti n) (Value (inputs n ! 0)) q (Value (inputs n ! 2))
                          (Value (inputs n ! 3)) (Value (inputs n ! 4)) = (r, d)"
      by (cases "execInsert e (db_ti n) (Value (inputs n ! 0)) q (Value (inputs n ! 2))
                          (Value (inputs n ! 3)) (Value (inputs n ! 4))")
    show ?thesis
    proof (cases r)
      case (Inl t)
      then show ?thesis using s True Inr x
        by (simp add: submitWasteItem_def addWasteItem_ti_def split: if_splits) (clarsimp+)
    next
      case (Inr i)
      then show ?thesis using s True \<open>parseFloat e (Value (inputs n ! 1)) = Inr q\<close> x
        by (simp add: submitWasteItem_def addWasteItem_ti_def setLast_def split: if_splits)
           (clarsimp+)
    qed
  qed
qed

lemma err_step_ti:
  assumes "Update_ti e u n y = Done (n', c)"
  shows "err_ti n' =
     (if y = KeyMsg ''d'' \<and> inputmode_ti n = normal \<and> waste_ti n \<noteq> [] then
        (case fst (execDelete e (db_ti n) (id_w (waste_ti n ! nat (cursor_ti n)))) of
           Some t \<Rightarrow> Some (''failed to delete item: '' @ t)
         | None \<Rightarrow> err_ti n)
      else if y = KeyMsg ''enter'' \<and> inputmode_ti n \<noteq> normal
                \<and> \<not> focusIndex n < int (length (inputs n)) - 1 then
        (case parseFloat e (Value (inputs n ! 1)) of
           Inl t \<Rightarrow> Some (''invalid quantity: '' @ t)
         | Inr q \<Rightarrow>
             (case fst (execInsert e (db_ti n) (Value (inputs n ! 0)) q (Value (inputs n ! 2))
                          (Value (inputs n ! 3)) (Value (inputs n ! 4))) of
                Inl t \<Rightarrow> Some (''failed to add item: '' @ t)
              | Inr i \<Rightarrow> err_ti n))
      else err_ti n)"
proof (cases y)
  case (OtherMsg z)
  then show ?thesis using assms by (auto simp add: Update_ti_def updateInputs_def)
next
  case (KeyMsg k)
  show ?thesis
  proof (cases "inputmode_ti n = normal")
    case True
    then have "updateNormal_ti e n k = Done (n', c)"
      using assms KeyMsg by (simp add: Update_ti_def)
    from err_normal_ti [OF this] show ?thesis using KeyMsg True by simp
  next
    case False
    then have "updateAdding e n k = Done (n', c)"
      using assms KeyMsg by (cases "inputmode_ti n") (simp_all add: Update_ti_def)
    from err_adding_ti [OF this] show ?thesis using KeyMsg False by simp
  qed
qed

text \<open>
  Claim C9, as the code has it. The last error is one optional message. A failed delete,
  a failed insert and an unparsable quantity each overwrite it with their own message.
  A successful quantity confirm of the single-buffer variant clears it. Every other step,
  successful or not, leaves it as it was; the textinput variant never clears it. Nothing
  is accumulated: the slot holds at most one message, that of the latest error.
\<close>

theorem last_error_slot:
  assumes "Update_sb e m x = Done (m', c)" and "Update_ti e u n y = Done (n', c')"
  shows "err_sb m' =
     (if x = KeyMsg ''d'' \<and> inputmode_sb m = normal \<and> waste_sb m \<noteq> [] then
        (case fst (execDelete e (db_sb m) (id_w (waste_sb m ! nat (cursor_sb m)))) of
           Some t \<Rightarrow> Some (''failed to delete item: '' @ t)
         | None \<Rightarrow> err_sb m)
      else if x = KeyMsg ''enter'' \<and> inputmode_sb m = addingQuantity then
        (case parseFloat e (input m) of
           Inl t \<Rightarrow> Some (''invalid quantity entered: '' @ t)
         | Inr q \<Rightarrow> None)
      else if x = KeyMsg ''enter'' \<and> inputmode_sb m = addingMethod then
        (case fst (execInsert e (db_sb m)
                     (name (waste_sb m ! (length (waste_sb m) - 1)))
                     (quantity (waste_sb m ! (length (waste_sb m) - 1)))
                     (wasteType (waste_sb m ! (length (waste_sb m) - 1)))
                     (location (waste_sb m ! (length (waste_sb m) - 1)))
                     (input m)) of
           Inl t \<Rightarrow> Some (''failed to add item: '' @ t)
         | Inr i \<Rightarrow> err_sb m)
      else err_sb m)
   \<and> err_ti n' =
     (if y = KeyMsg ''d'' \<and> inputmode_ti n = normal \<and> waste_ti n \<noteq> [] then
        (case fst (execDelete e (db_ti n) (id_w (waste_ti n ! nat (cursor_ti n)))) of
           Some t \<Rightarrow> Some (''failed to delete item: '' @ t)
         | None \<Rightarrow> err_ti n)
      else if y = KeyMsg ''enter'' \<and> inputmode_ti n \<noteq> normal
                \<and> \<not> focusIndex n < int (length (inputs n)) - 1 then
        (case parseFloat e (Value (inputs n ! 1)) of
           Inl t \<Rightarrow> Some (''invalid quantity: '' @ t)
         | Inr q \<Rightarrow>
             (case fst (execInsert e (db_ti n) (Value (inputs n ! 0)) q (Value (inputs n ! 2))
                          (Value (inputs n ! 3)) (Value (inputs n ! 4))) of
                Inl t \<Rightarrow> Some (''failed to add item: '' @ t)
              | Inr i \<Rightarrow> err_ti n))
      else err_ti n)"
  by (rule conjI [OF err_step_sb [OF assms(1)] err_step_ti [OF assms(2)]])

text \<open>A stale error is cleared by a quantity that parses, and overwritten by a delete the
  store refuses.\<close>

theorem last_error_slot_witness:
  "Update_sb testEnv (quantityForm ''12.5'') (KeyMsg ''enter'' :: unit msg)
   = Done (\<lparr>db_sb = storeUp, waste_sb = [item1, (newItem ''Oil'')\<lparr>quantity := 25 / 2\<rparr>],
            cursor_sb = 0, input = [], inputmode_sb = addingWasteType, err_sb = None\<rparr>, NoCmd)
   \<and> Update_ti testEnv tiIgnore
        ((form_ti storeDown [item1] normal [[], [], [], [], []] 0)\<lparr>err_ti := Some ''stale''\<rparr>)
        (KeyMsg ''d'' :: unit msg)
     = Done ((form_ti (storeDown\<lparr>calls := [DeleteCall 7]\<rparr>) [item1] normal [[], [], [], [], []] 0)
               \<lparr>err_ti := Some ''failed to delete item: database is locked''\<rparr>, NoCmd)
   \<and> err_sb (quantityForm ''12.5'') = Some ''stale''"
  using last_error_slot [of testEnv "quantityForm ''12.5''" "KeyMsg ''enter'' :: unit msg"
      "\<lparr>db_sb = storeUp, waste_sb = [item1, (newItem ''Oil'')\<lparr>quantity := 25 / 2\<rparr>],
        cursor_sb = 0, input = [], inputmode_sb = addingWasteType, err_sb = None\<rparr>" NoCmd
      tiIgnore
      "(form_ti storeDown [item1] normal [[], [], [], [], []] 0)\<lparr>err_ti := Some ''stale''\<rparr>"
      "KeyMsg ''d'' :: unit msg"
      "(form_ti (storeDown\<lparr>calls := [DeleteCall 7]\<rparr>) [item1] normal [[], [], [], [], []] 0)
         \<lparr>err_ti := Some ''failed to delete item: database is locked''\<rparr>" NoCmd]
  by (simp add: sb_defs ti_defs test_defs)

text \<open>Claim C9 as stated fails. In the single-buffer variant a quantity that does not
  parse sets the error; cancelling the form, moving the cursor and a delete the store
  accepts all change the state afterwards, and the error is still there.\<close>

theorem error_survives_success_counterexample:
  "run_sb testEnv (browsing_sb storeUp [item1, item2] 0)
     (map KeyMsg [''a'', ''x'', ''enter'', ''z'', ''enter''] :: unit msg list)
   = Done \<lparr>db_sb = storeUp, waste_sb = [item1, item2, newItem ''x''], cursor_sb = 0, input = [],
           inputmode_sb = addingQuantity,
           err_sb = Some ''invalid quantity entered: invalid syntax''\<rparr>
   \<and> run_sb testEnv (browsing_sb storeUp [item1, item2] 0)
       (map KeyMsg [''a'', ''x'', ''enter'', ''z'', ''enter'', ''esc'', ''down''] :: unit msg list)
     = Done \<lparr>db_sb = storeUp, waste_sb = [item1, item2, newItem ''x''], cursor_sb = 1, input = [],
             inputmode_sb = normal,
             err_sb = Some ''invalid quantity entered: invalid syntax''\<rparr>
   \<and> run_sb testEnv (browsing_sb storeUp [item1, item2] 0)
       (map KeyMsg [''a'', ''x'', ''enter'', ''z'', ''enter'', ''esc'', ''down'', ''d'']
          :: unit msg list)
     = Done \<lparr>db_sb = storeUp\<lparr>calls := [DeleteCall 9]\<rparr>,
             waste_sb = [item1, newItem ''x''], cursor_sb = 1, input = [],
             inputmode_sb = normal,
             err_sb = Some ''invalid quantity entered: invalid syntax''\<rparr>"
  by (simp add: sb_defs test_defs)

end
